theory Spec2Isabelle
  imports Complex_Main "HOL-Library.Word"
begin

unbundle bit_operations_syntax

section \<open>Data model\<close>

text \<open>
  The estimator of \<^verbatim>\<open>KFParticleBaseSIMD.cxx\<close> is embedded one lane at a time: a
  \<^verbatim>\<open>float_v\<close> is a real number (ideal arithmetic, no rounding, no NaN), a lane mask
  \<^verbatim>\<open>float_m\<close> is a \<^typ>\<open>bool\<close>, and a masked assignment \<^verbatim>\<open>x(mask) = v\<close> is
  \<open>if mask then v else x\<close>. The arrays \<^verbatim>\<open>fP[8]\<close> and \<^verbatim>\<open>fC[36]\<close> are lists, read with
  \<open>!\<close> at the constant indices of the source. A float literal stands for its decimal
  value (\<^verbatim>\<open>1.e-10f\<close> is \<open>1 / 10 ^ 10\<close>). Where the source divides by zero or takes the
  square root of a negative number, the model has the total values of the real numbers
  of HOL (\<open>x / 0 = 0\<close>, \<open>sqrt (- x) = - sqrt x\<close>) in place of the infinities and NaN of
  floating point. Where the source combines two numbers bitwise (\<^verbatim>\<open>mask & value\<close> in
  \<^verbatim>\<open>SubtractFromVertex\<close>), the numbers are taken to their single-precision bit patterns,
  32-bit words, and back.
\<close>

record KFParticleBaseSIMD =
  fP :: "real list"
  fC :: "real list"
  fQ :: real
  fNDF :: int
  fChi2 :: real
  fSFromDecay :: real
  SumDaughterMass :: real
  fMassHypo :: real
  fAtProductionVertex :: bool
  fIsLinearized :: bool
  fVtxGuess :: "real list"
  fVtxErrGuess :: "real list"
  fIsVtxErrGuess :: bool
  fConstructMethod :: int
  fId :: int
  fDaughterIds :: "int list"

section \<open>Initialisation\<close>

text \<open>
  \<^verbatim>\<open>Initialize()\<close> and the default constructor, which sets the scalar members and calls
  it. The members \<^verbatim>\<open>fIsVtxGuess\<close> and \<^verbatim>\<open>fPDG\<close>, which none of the embedded functions
  reads, are not part of the record.
\<close>

definition Initialize :: "KFParticleBaseSIMD \<Rightarrow> KFParticleBaseSIMD" where
  "Initialize p =
    (let P = map (\<lambda>i. 0) [0..<8];
         C = map (\<lambda>i. 0) [0..<36];
         C = C[0 := 100, 2 := 100, 5 := 100];
         C = C[35 := 1]
     in p\<lparr>fP := P, fC := C, fNDF := - 3, fChi2 := 0, fQ := 0, fSFromDecay := 0,
          fAtProductionVertex := False, fVtxGuess := [0, 0, 0], fVtxErrGuess := [0, 0, 0],
          fIsLinearized := False,
          SumDaughterMass := 0, fMassHypo := - 1\<rparr>)"

definition new_KFParticleBaseSIMD :: KFParticleBaseSIMD where
  "new_KFParticleBaseSIMD =
     Initialize \<lparr> fP = [], fC = [], fQ = 0, fNDF = - 3, fChi2 = 0, fSFromDecay = 0,
       SumDaughterMass = 0, fMassHypo = - 1, fAtProductionVertex = False, fIsLinearized = False,
       fVtxGuess = [], fVtxErrGuess = [], fIsVtxErrGuess = False, fConstructMethod = 0,
       fId = - 1, fDaughterIds = [] \<rparr>"

section \<open>The virtual interface\<close>

text \<open>
  \<^verbatim>\<open>GetFieldValue\<close>, \<^verbatim>\<open>Transport\<close>, \<^verbatim>\<open>GetDStoPoint\<close> and \<^verbatim>\<open>GetDStoParticle\<close> are
  virtual methods that the derived particle class supplies; their bodies are not part of
  \<^verbatim>\<open>KFParticleBaseSIMD.cxx\<close>. They are parameters of the embedding, collected in one
  record: the field at a point, the mean and covariance that \<^verbatim>\<open>Transport(dS, P, C)\<close>
  writes for an object, and the two path-length solvers.
\<close>

record KFVirtuals =
  GetFieldValue :: "real list \<Rightarrow> real list"
  Transport :: "KFParticleBaseSIMD \<Rightarrow> real \<Rightarrow> real list \<times> real list"
  GetDStoPoint :: "KFParticleBaseSIMD \<Rightarrow> real list \<Rightarrow> real"
  GetDStoParticle :: "KFParticleBaseSIMD \<Rightarrow> KFParticleBaseSIMD \<Rightarrow> real \<times> real"

section \<open>Lane masks\<close>

text \<open>
  Modelled from the spec: the vector type and its masks are outside the sources. A
  \<^verbatim>\<open>float_v\<close> built from a comparison of vectors has all bits set on the lanes where the
  comparison holds and is zero elsewhere, and \<^verbatim>\<open>v & mask\<close> is the bitwise conjunction with it: the
  lane keeps its value where the mask is set and becomes \<open>0\<close> where it is not. The
  conjunction of two such masks is the conjunction of the lane predicates.
\<close>

definition mask_and :: "real \<Rightarrow> bool \<Rightarrow> real" where
  "mask_and v m = (if m then v else 0)"


section \<open>Bit patterns of single-precision numbers\<close>

text \<open>
  Modelled from the spec: the vector type is outside the sources. A \<^verbatim>\<open>float_v\<close> built
  from a scalar holds that scalar in every lane; a C++ \<^verbatim>\<open>bool\<close> is first converted to
  the number \<open>1\<close> or \<open>0\<close> (\<open>float_v_of_bool\<close>). The operator \<^verbatim>\<open>&\<close> on two \<^verbatim>\<open>float_v\<close> is
  the conjunction of their IEEE 754 single-precision bit patterns (\<open>float_and\<close>).

  \<open>float_bits x\<close> is the pattern of the number \<open>x\<close>: the sign in bit 31, the biased
  exponent \<open>float_exponent x\<close> in bits 23 to 30, and the fraction, rounded to nearest with
  ties to even, in bits 0 to 22 (a fraction that rounds up to \<open>2\<^sup>2\<^sup>3\<close> carries into the
  exponent). The exponent 0 is that of zero and of the subnormal numbers, and a magnitude
  of \<open>2\<^sup>1\<^sup>2\<^sup>8\<close> or more has the pattern of infinity. \<open>float_value w\<close> is the number that
  the pattern \<open>w\<close> stands for (the patterns with exponent 255 stand for no real number).
\<close>

definition float_v_of_bool :: "bool \<Rightarrow> real" where
  "float_v_of_bool b = (if b then 1 else 0)"

definition float_exponent :: "real \<Rightarrow> nat" where
  "float_exponent x =
    (case find (\<lambda>e. \<bar>x\<bar> * 2 ^ 126 < 2 ^ e) [0..<255] of Some e \<Rightarrow> e | None \<Rightarrow> 255)"

definition round_even :: "real \<Rightarrow> nat" where
  "round_even y =
    (let n = nat \<lfloor>y\<rfloor>; r = y - real n
     in if r < 1 / 2 then n else if 1 / 2 < r then n + 1 else if even n then n else n + 1)"

definition float_bits :: "real \<Rightarrow> 32 word" where
  "float_bits x =
    (let e = float_exponent x;
         m = (if e = 255 then 0
              else if e = 0 then round_even (\<bar>x\<bar> * 2 ^ 149)
              else round_even ((\<bar>x\<bar> * 2 ^ 127 / 2 ^ e - 1) * 2 ^ 23));
         s = (if x < 0 then 1 else 0)
     in push_bit 31 s + push_bit 23 (of_nat e) + of_nat m)"

definition float_value :: "32 word \<Rightarrow> real" where
  "float_value w =
    (let e = unat (take_bit 8 (drop_bit 23 w));
         m = unat (take_bit 23 w);
         v = (if e = 0 then real m / 2 ^ 149 else (1 + real m / 2 ^ 23) * 2 ^ e / 2 ^ 127)
     in if bit w 31 then - v else v)"

definition float_and :: "real \<Rightarrow> real \<Rightarrow> real" where
  "float_and a b = float_value (float_bits a AND float_bits b)"
section \<open>Packed symmetric matrices and accumulation loops\<close>

text \<open>
  Modelled from the spec: the inline helpers \<^verbatim>\<open>IJ(i, j)\<close> and \<^verbatim>\<open>Cij(i, j)\<close> are declared
  in the header, which is not part of the sources. The covariance is packed in
  lower-triangular row-major order, entry \<open>(i, j)\<close> with \<open>i \<ge> j\<close> at position
  \<open>i (i + 1) / 2 + j\<close>; \<^verbatim>\<open>MultQSQt\<close> in the sources spells the same index out.
\<close>

definition IJ :: "nat \<Rightarrow> nat \<Rightarrow> nat" where
  "IJ i j = (if j \<le> i then i * (i + 1) div 2 + j else j * (j + 1) div 2 + i)"

definition Cij :: "KFParticleBaseSIMD \<Rightarrow> nat \<Rightarrow> nat \<Rightarrow> real" where
  "Cij p i j = fC p ! IJ i j"

text \<open>
  The loop \<^verbatim>\<open>x = 0; for (k = 0; k < n; k++) x += f(k);\<close>, adding in the order of the loop.
\<close>

definition sum_loop :: "nat \<Rightarrow> (nat \<Rightarrow> real) \<Rightarrow> real" where
  "sum_loop n f = fold (\<lambda>k x. x + f k) [0..<n] 0"

text \<open>The assignment \<^verbatim>\<open>m[i][j] = v\<close> on a two-dimensional local array.\<close>

definition upd2 :: "real list list \<Rightarrow> nat \<Rightarrow> nat \<Rightarrow> real \<Rightarrow> real list list" where
  "upd2 m i j v = m[i := (m ! i)[j := v]]"

section \<open>Derived observables\<close>

text \<open>
  \<^verbatim>\<open>GetMass(m, error)\<close>: the returned triple is (problem mask, \<^verbatim>\<open>m\<close>, \<^verbatim>\<open>error\<close>).
  Both out-parameters are overwritten on every lane, by the two complementary masked
  assignments. The square roots are taken of the selected, non-negative arguments only.
\<close>

definition GetMass_s :: "KFParticleBaseSIMD \<Rightarrow> real" where
  "GetMass_s p =
    (let P = fP p; C = fC p in
       (P!3 * P!3 * C!9 + P!4 * P!4 * C!14 + P!5 * P!5 * C!20
        + P!6 * P!6 * C!27
        + 2 * (P!3 * P!4 * C!13 + P!5 * (P!3 * C!18 + P!4 * C!19)
               - P!6 * (P!3 * C!24 + P!4 * C!25 + P!5 * C!26))))"

definition GetMass_m2 :: "KFParticleBaseSIMD \<Rightarrow> real" where
  "GetMass_m2 p = (let P = fP p in P!6 * P!6 - P!3 * P!3 - P!4 * P!4 - P!5 * P!5)"

definition GetMass :: "KFParticleBaseSIMD \<Rightarrow> bool \<times> real \<times> real" where
  "GetMass p =
    (let BIG = 10 ^ 20;
         LocalSmall = 1 / 10 ^ 10;
         s = GetMass_s p;
         m2 = GetMass_m2 p;
         mask = (0 \<le> m2);
         m = (if mask then sqrt m2 else - sqrt (- m2));
         mask = (mask \<and> 0 \<le> s \<and> LocalSmall < m);
         error = (if mask then sqrt s / m else BIG)
     in (\<not> mask, m, error))"

section \<open>Transport engine\<close>

text \<open>
  \<^verbatim>\<open>TransportLine(dS, P, C)\<close> reads the object's \<^verbatim>\<open>fP\<close>, \<^verbatim>\<open>fC\<close> and writes the output
  arrays. The local names follow the source; the output entries are bound in the order
  of the source's assignments (\<^verbatim>\<open>C[7]\<close>, \<^verbatim>\<open>C[8]\<close>, \<^verbatim>\<open>C[12]\<close> before \<^verbatim>\<open>C[1]\<close>,
  \<^verbatim>\<open>C[3]\<close>, \<^verbatim>\<open>C[4]\<close>, which read them).
\<close>

definition TransportLine_apply :: "real \<Rightarrow> real list \<Rightarrow> real list \<Rightarrow> real list \<times> real list" where
  "TransportLine_apply dS P C =
    (let c6 = C!6 + dS * C!9;
         c11 = C!11 + dS * C!14;
         c17 = C!17 + dS * C!20;
         sc13 = dS * C!13;
         sc18 = dS * C!18;
         sc19 = dS * C!19;
         C0 = C!0 + dS * (C!6 + c6);
         C2 = C!2 + dS * (C!11 + c11);
         C5 = C!5 + dS * (C!17 + c17);
         C7 = C!7 + sc13;
         C8 = C!8 + sc18;
         C9 = C!9;
         C12 = C!12 + sc19;
         C1 = C!1 + dS * (C!10 + C7);
         C3 = C!3 + dS * (C!15 + C8);
         C4 = C!4 + dS * (C!16 + C12);
         C6 = c6;
         C10 = C!10 + sc13;
         C11 = c11;
         C15 = C!15 + sc18;
         C16 = C!16 + sc19;
         C17 = c17
     in ([P!0 + dS * P!3, P!1 + dS * P!4, P!2 + dS * P!5, P!3, P!4, P!5, P!6, P!7],
         [C0, C1, C2, C3, C4, C5, C6, C7, C8, C9, C10, C11, C12, C!13, C!14, C15, C16, C17,
          C!18, C!19, C!20, C!21 + dS * C!24, C!22 + dS * C!25, C!23 + dS * C!26,
          C!24, C!25, C!26, C!27, C!28 + dS * C!31, C!29 + dS * C!32, C!30 + dS * C!33,
          C!31, C!32, C!33, C!34, C!35]))"

definition TransportLine :: "real \<Rightarrow> KFParticleBaseSIMD \<Rightarrow> real list \<times> real list" where
  "TransportLine dS p = TransportLine_apply dS (fP p) (fC p)"

text \<open>
  Modelled from the spec: the math helpers \<^verbatim>\<open>KFPMath::Sin\<close> and \<^verbatim>\<open>KFPMath::Cos\<close> that
  \<^verbatim>\<open>TransportBz\<close> calls are not part of the sources; they are taken to be the real sine
  and cosine.

  \<^verbatim>\<open>TransportBz(b, t, p, e)\<close>: \<open>TransportBz_coeffs\<close> is the first half of the function
  (the coefficients \<^verbatim>\<open>s\<close>, \<^verbatim>\<open>c\<close>, \<^verbatim>\<open>sB\<close>, \<^verbatim>\<open>cB\<close>, with the small-argument branch
  selected by the mask \<^verbatim>\<open>abs(bs) <= LocalSmall\<close>), \<open>TransportBz_apply\<close> the second half
  (the new mean and covariance). \<open>TransportBz_bs\<close> is the bend angle \<^verbatim>\<open>bs\<close> of the source.
\<close>

definition kCLight :: real where
  "kCLight = 299792458 / 10 ^ 12"

definition TransportBz_coeffs :: "real \<Rightarrow> real \<Rightarrow> real \<Rightarrow> real \<times> real \<times> real \<times> real" where
  "TransportBz_coeffs b0 t q =
    (let b = b0 * q * kCLight;
         bs = b * t;
         s = sin bs; c = cos bs;
         kOvSqr6 = 1 / sqrt 6;
         LocalSmall = 1 / 10 ^ 10;
         b = (if \<bar>bs\<bar> \<le> LocalSmall then LocalSmall else b);
         sB = (if LocalSmall < \<bar>bs\<bar> then s / b else (1 - bs * kOvSqr6) * (1 + bs * kOvSqr6) * t);
         cB = (if LocalSmall < \<bar>bs\<bar> then (1 - c) / b else (1 / 2) * sB * bs)
     in (s, c, sB, cB))"

definition TransportBz_apply ::
  "real \<Rightarrow> real \<Rightarrow> real \<Rightarrow> real \<Rightarrow> real \<Rightarrow> real list \<Rightarrow> real list \<Rightarrow> real list \<times> real list" where
  "TransportBz_apply t s c sB cB P C =
    (let px = P!3; py = P!4; pz = P!5;
         c6 = C!6; c7 = C!7; c8 = C!8; c17 = C!17; c18 = C!18; c24 = C!24; c31 = C!31;
         cBC13 = cB * C!13;
         mJC13 = c7 - cB * C!9 + sB * C!13;
         mJC14 = C!11 - cBC13 + sB * C!14;
         mJC23 = c8 + t * c18;
         mJC24 = C!12 + t * C!19;
         mJC33 = c * C!9 + s * C!13;
         mJC34 = c * C!13 + s * C!14;
         mJC43 = - s * C!9 + c * C!13;
         mJC44 = - s * C!13 + c * C!14;
         e0 = C!0 + 2 * (sB * c6 + cB * C!10) + (sB * C!9 + 2 * cBC13) * sB + cB * cB * C!14;
         e1 = C!1 - cB * c6 + sB * C!10 + mJC13 * sB + mJC14 * cB;
         e2 = C!2 - cB * c7 + sB * C!11 - mJC13 * cB + mJC14 * sB;
         e3 = C!3 + t * C!15 + mJC23 * sB + mJC24 * cB;
         e4 = C!4 + t * C!16 - mJC23 * cB + mJC24 * sB;
         e15 = C!15 + c18 * sB + C!19 * cB;
         e16 = C!16 - c18 * cB + C!19 * sB;
         e17 = c17 + C!20 * t;
         e18 = c18 * c + C!19 * s;
         e19 = - c18 * s + C!19 * c;
         e5 = C!5 + (c17 + e17) * t;
         e6 = c * c6 + s * C!10 + mJC33 * sB + mJC34 * cB;
         e7 = c * c7 + s * C!11 - mJC33 * cB + mJC34 * sB;
         e8 = c * c8 + s * C!12 + e18 * t;
         e9 = mJC33 * c + mJC34 * s;
         e10 = - s * c6 + c * C!10 + mJC43 * sB + mJC44 * cB;
         e11 = - s * c7 + c * C!11 - mJC43 * cB + mJC44 * sB;
         e12 = - s * c8 + c * C!12 + e19 * t;
         e13 = mJC43 * c + mJC44 * s;
         e14 = - mJC43 * s + mJC44 * c;
         e20 = C!20;
         e21 = C!21 + C!25 * cB + c24 * sB;
         e22 = C!22 - c24 * cB + C!25 * sB;
         e23 = C!23 + C!26 * t;
         e24 = c * c24 + s * C!25;
         e25 = c * C!25 - c24 * s;
         e26 = C!26;
         e27 = C!27;
         e28 = C!28 + C!32 * cB + c31 * sB;
         e29 = C!29 - c31 * cB + C!32 * sB;
         e30 = C!30 + C!33 * t;
         e31 = c * c31 + s * C!32;
         e32 = c * C!32 - s * c31;
         e33 = C!33;
         e34 = C!34;
         e35 = C!35
     in ([P!0 + sB * px + cB * py, P!1 - cB * px + sB * py, P!2 + t * pz,
          c * px + s * py, - s * px + c * py, P!5, P!6, P!7],
         [e0, e1, e2, e3, e4, e5, e6, e7, e8, e9, e10, e11, e12, e13, e14, e15, e16, e17,
          e18, e19, e20, e21, e22, e23, e24, e25, e26, e27, e28, e29, e30, e31, e32, e33,
          e34, e35]))"


definition TransportBz :: "real \<Rightarrow> real \<Rightarrow> KFParticleBaseSIMD \<Rightarrow> real list \<times> real list" where
  "TransportBz b t p =
    (case TransportBz_coeffs b t (fQ p) of
       (s, c, sB, cB) \<Rightarrow> TransportBz_apply t s c sB cB (fP p) (fC p))"

text \<open>
  The state re-expressed at the transported point: the object with the output arrays
  of a transport call as its mean and covariance.
\<close>

definition Transported :: "KFParticleBaseSIMD \<Rightarrow> real list \<times> real list \<Rightarrow> KFParticleBaseSIMD" where
  "Transported p PC = p\<lparr>fP := fst PC, fC := snd PC\<rparr>"

section \<open>Transport of the object itself\<close>

text \<open>
  \<^verbatim>\<open>TransportToDS\<close> and \<^verbatim>\<open>TransportToDSLine\<close> call the transport with the object's own
  arrays as output and then add \<^verbatim>\<open>dS\<close> to \<^verbatim>\<open>fSFromDecay\<close>. For the virtual \<^verbatim>\<open>Transport\<close>
  the arrays written are the parameter's result. For \<^verbatim>\<open>TransportLine(dS, fP, fC)\<close> the
  output arrays are the input arrays: \<open>TransportLine_inplace\<close> is the function body run
  on one pair of arrays, every assignment a list update that later lines read.
\<close>

definition TransportToDS :: "KFVirtuals \<Rightarrow> real \<Rightarrow> KFParticleBaseSIMD \<Rightarrow> KFParticleBaseSIMD" where
  "TransportToDS V dS p =
    (case Transport V p dS of
       (P, C) \<Rightarrow> p\<lparr>fP := P, fC := C, fSFromDecay := fSFromDecay p + dS\<rparr>)"

definition TransportLine_inplace :: "real \<Rightarrow> real list \<Rightarrow> real list \<Rightarrow> real list \<times> real list" where
  "TransportLine_inplace dS P0 C0 =
    (let P = P0; C = C0;
         P = P[0 := P!0 + dS * P!3];
         P = P[1 := P!1 + dS * P!4];
         P = P[2 := P!2 + dS * P!5];
         P = P[3 := P!3];
         P = P[4 := P!4];
         P = P[5 := P!5];
         P = P[6 := P!6];
         P = P[7 := P!7];
         c6 = C!6 + dS * C!9;
         c11 = C!11 + dS * C!14;
         c17 = C!17 + dS * C!20;
         sc13 = dS * C!13;
         sc18 = dS * C!18;
         sc19 = dS * C!19;
         C = C[0 := C!0 + dS * (C!6 + c6)];
         C = C[2 := C!2 + dS * (C!11 + c11)];
         C = C[5 := C!5 + dS * (C!17 + c17)];
         C = C[7 := C!7 + sc13];
         C = C[8 := C!8 + sc18];
         C = C[9 := C!9];
         C = C[12 := C!12 + sc19];
         C = C[1 := C!1 + dS * (C!10 + C!7)];
         C = C[3 := C!3 + dS * (C!15 + C!8)];
         C = C[4 := C!4 + dS * (C!16 + C!12)];
         C = C[6 := c6];
         C = C[10 := C!10 + sc13];
         C = C[11 := c11];
         C = C[13 := C!13];
         C = C[14 := C!14];
         C = C[15 := C!15 + sc18];
         C = C[16 := C!16 + sc19];
         C = C[17 := c17];
         C = C[18 := C!18];
         C = C[19 := C!19];
         C = C[20 := C!20];
         C = C[21 := C!21 + dS * C!24];
         C = C[22 := C!22 + dS * C!25];
         C = C[23 := C!23 + dS * C!26];
         C = C[24 := C!24];
         C = C[25 := C!25];
         C = C[26 := C!26];
         C = C[27 := C!27];
         C = C[28 := C!28 + dS * C!31];
         C = C[29 := C!29 + dS * C!32];
         C = C[30 := C!30 + dS * C!33];
         C = C[31 := C!31];
         C = C[32 := C!32];
         C = C[33 := C!33];
         C = C[34 := C!34];
         C = C[35 := C!35]
     in (P, C))"

definition TransportToDSLine :: "real \<Rightarrow> KFParticleBaseSIMD \<Rightarrow> KFParticleBaseSIMD" where
  "TransportToDSLine dS p =
    (case TransportLine_inplace dS (fP p) (fC p) of
       (P, C) \<Rightarrow> p\<lparr>fP := P, fC := C, fSFromDecay := fSFromDecay p + dS\<rparr>)"

text \<open>
  \<^verbatim>\<open>Convert(ToProduction)\<close> updates \<^verbatim>\<open>fC\<close> in place; every assignment of the source is
  one list update, in the source's order, so that a later line reads the entries an
  earlier line wrote. \<open>Convert_h\<close> is the local array \<^verbatim>\<open>h[6]\<close>.
\<close>

definition Convert_h :: "KFVirtuals \<Rightarrow> bool \<Rightarrow> KFParticleBaseSIMD \<Rightarrow> real list" where
  "Convert_h V ToProduction p =
    (let fld = GetFieldValue V (fP p);
         kCL = fQ p * kCLight;
         fld0 = fld!0 * kCL; fld1 = fld!1 * kCL; fld2 = fld!2 * kCL;
         h0 = fP p ! 3; h1 = fP p ! 4; h2 = fP p ! 5;
         h0 = (if ToProduction then - h0 else h0);
         h1 = (if ToProduction then - h1 else h1);
         h2 = (if ToProduction then - h2 else h2);
         h3 = h1 * fld2 - h2 * fld1;
         h4 = h2 * fld0 - h0 * fld2;
         h5 = h0 * fld1 - h1 * fld0
     in [h0, h1, h2, h3, h4, h5])"

definition Convert_fC :: "real list \<Rightarrow> real list \<Rightarrow> real list" where
  "Convert_fC h C0 =
    (let C = C0;
         c = C!28 + h!0 * C!35;
         C = C[0 := C!0 + h!0 * (c + C!28)];
         C = C[28 := c];
         C = C[1 := C!1 + (h!1 * C!28 + h!0 * C!29)];
         c = C!29 + h!1 * C!35;
         C = C[2 := C!2 + h!1 * (c + C!29)];
         C = C[29 := c];
         C = C[3 := C!3 + (h!2 * C!28 + h!0 * C!30)];
         C = C[4 := C!4 + (h!2 * C!29 + h!1 * C!30)];
         c = C!30 + h!2 * C!35;
         C = C[5 := C!5 + h!2 * (c + C!30)];
         C = C[30 := c];
         C = C[6 := C!6 + (h!3 * C!28 + h!0 * C!31)];
         C = C[7 := C!7 + (h!3 * C!29 + h!1 * C!31)];
         C = C[8 := C!8 + (h!3 * C!30 + h!2 * C!31)];
         c = C!31 + h!3 * C!35;
         C = C[9 := C!9 + h!3 * (c + C!31)];
         C = C[31 := c];
         C = C[10 := C!10 + (h!4 * C!28 + h!0 * C!32)];
         C = C[11 := C!11 + (h!4 * C!29 + h!1 * C!32)];
         C = C[12 := C!12 + (h!4 * C!30 + h!2 * C!32)];
         C = C[13 := C!13 + (h!4 * C!31 + h!3 * C!32)];
         c = C!32 + h!4 * C!35;
         C = C[14 := C!14 + h!4 * (c + C!32)];
         C = C[32 := c];
         C = C[15 := C!15 + (h!5 * C!28 + h!0 * C!33)];
         C = C[16 := C!16 + (h!5 * C!29 + h!1 * C!33)];
         C = C[17 := C!17 + (h!5 * C!30 + h!2 * C!33)];
         C = C[18 := C!18 + (h!5 * C!31 + h!3 * C!33)];
         C = C[19 := C!19 + (h!5 * C!32 + h!4 * C!33)];
         c = C!33 + h!5 * C!35;
         C = C[20 := C!20 + h!5 * (c + C!33)];
         C = C[33 := c];
         C = C[21 := C!21 + h!0 * C!34];
         C = C[22 := C!22 + h!1 * C!34];
         C = C[23 := C!23 + h!2 * C!34];
         C = C[24 := C!24 + h!3 * C!34];
         C = C[25 := C!25 + h!4 * C!34];
         C = C[26 := C!26 + h!5 * C!34]
     in C)"

definition Convert :: "KFVirtuals \<Rightarrow> bool \<Rightarrow> KFParticleBaseSIMD \<Rightarrow> KFParticleBaseSIMD" where
  "Convert V ToProduction p = p\<lparr>fC := Convert_fC (Convert_h V ToProduction p) (fC p)\<rparr>"

definition TransportToDecayVertex :: "KFVirtuals \<Rightarrow> KFParticleBaseSIMD \<Rightarrow> KFParticleBaseSIMD" where
  "TransportToDecayVertex V p =
    (let p = TransportToDS V (- fSFromDecay p) p;
         p = (if fAtProductionVertex p then Convert V False p else p)
     in p\<lparr>fAtProductionVertex := False\<rparr>)"

definition TransportToProductionVertex :: "KFVirtuals \<Rightarrow> KFParticleBaseSIMD \<Rightarrow> KFParticleBaseSIMD" where
  "TransportToProductionVertex V p =
    (let p = TransportToDS V (- fSFromDecay p - fP p ! 7) p;
         p = (if \<not> fAtProductionVertex p then Convert V True p else p)
     in p\<lparr>fAtProductionVertex := True\<rparr>)"

section \<open>Armenteros-Podolanski variables\<close>

text \<open>
  Modelled from the spec: the accessors \<^verbatim>\<open>GetPx\<close>, \<^verbatim>\<open>GetPy\<close>, \<^verbatim>\<open>GetPz\<close> are inline in
  the header, which is not part of the sources; they read the momentum components
  \<^verbatim>\<open>fP[3]\<close>, \<^verbatim>\<open>fP[4]\<close>, \<^verbatim>\<open>fP[5]\<close> of the mean.
\<close>

definition GetPx :: "KFParticleBaseSIMD \<Rightarrow> real" where "GetPx p = fP p ! 3"
definition GetPy :: "KFParticleBaseSIMD \<Rightarrow> real" where "GetPy p = fP p ! 4"
definition GetPz :: "KFParticleBaseSIMD \<Rightarrow> real" where "GetPz p = fP p ! 5"

text \<open>
  \<^verbatim>\<open>GetArmenterosPodolanski(positive, negative, QtAlfa)\<close>; the result is the array
  \<^verbatim>\<open>QtAlfa[2]\<close>. \<^verbatim>\<open>qt\<close> and \<^verbatim>\<open>alpha\<close> start at zero; \<^verbatim>\<open>qt\<close> is assigned under the mask
  \<^verbatim>\<open>ptm >= 0\<close>. The two outputs are \<^verbatim>\<open>qt & mask\<close> and \<^verbatim>\<open>alpha & mask\<close>.
\<close>

definition GetArmenterosPodolanski :: "KFParticleBaseSIMD \<Rightarrow> KFParticleBaseSIMD \<Rightarrow> real list" where
  "GetArmenterosPodolanski positive negative =
    (let alpha = (0::real); qt = (0::real);
         spx = GetPx positive + GetPx negative;
         spy = GetPy positive + GetPy negative;
         spz = GetPz positive + GetPz negative;
         sp = sqrt (spx * spx + spy * spy + spz * spz);
         mask = (\<bar>sp\<bar> < 1 / 10 ^ 10);
         pn = sqrt (GetPx negative * GetPx negative + GetPy negative * GetPy negative
                    + GetPz negative * GetPz negative);
         pp = sqrt (GetPx positive * GetPx positive + GetPy positive * GetPy positive
                    + GetPz positive * GetPz positive);
         pln = (GetPx negative * spx + GetPy negative * spy + GetPz negative * spz) / sp;
         plp = (GetPx positive * spx + GetPy positive * spy + GetPz positive * spz) / sp;
         mask = (mask \<and> \<bar>pn\<bar> < 1 / 10 ^ 10);
         ptm = 1 - ((pln / pn) * (pln / pn));
         qt = (if ptm \<ge> 0 then pn * sqrt ptm else qt);
         alpha = (plp - pln) / (plp + pln)
     in [mask_and qt mask, mask_and alpha mask])"

text \<open>
  The direct computation, in the words of the specification: with \<open>pl\<^sub>+\<close> and \<open>pl\<^sub>-\<close>
  the daughters' momentum components along the summed momentum,
  \<open>alpha = (pl\<^sub>+ - pl\<^sub>-) / (pl\<^sub>+ + pl\<^sub>-)\<close> and \<open>qt = p\<^sub>- * sqrt (1 - (pl\<^sub>- / p\<^sub>-)\<^sup>2)\<close>.
\<close>

definition momentum :: "KFParticleBaseSIMD \<Rightarrow> real \<times> real \<times> real" where
  "momentum p = (fP p ! 3, fP p ! 4, fP p ! 5)"

definition longitudinal :: "real \<times> real \<times> real \<Rightarrow> real \<times> real \<times> real \<Rightarrow> real" where
  "longitudinal v w =
    (case (v, w) of ((vx, vy, vz), (wx, wy, wz)) \<Rightarrow>
       (vx * wx + vy * wy + vz * wz) / sqrt (wx\<^sup>2 + wy\<^sup>2 + wz\<^sup>2))"

definition ArmenterosPodolanski_direct :: "KFParticleBaseSIMD \<Rightarrow> KFParticleBaseSIMD \<Rightarrow> real \<times> real" where
  "ArmenterosPodolanski_direct positive negative =
    (case (momentum positive, momentum negative) of ((px, py, pz), (nx, ny, nz)) \<Rightarrow>
       let total = (px + nx, py + ny, pz + nz);
           pl_plus = longitudinal (px, py, pz) total;
           pl_minus = longitudinal (nx, ny, nz) total;
           p_minus = sqrt (nx\<^sup>2 + ny\<^sup>2 + nz\<^sup>2)
       in (p_minus * sqrt (1 - (pl_minus / p_minus)\<^sup>2),
           (pl_plus - pl_minus) / (pl_plus + pl_minus)))"

section \<open>Inversion of a symmetric 3x3 matrix\<close>

text \<open>
  \<^verbatim>\<open>InvertCholetsky3(a)\<close> works in place on the packed matrix \<^verbatim>\<open>a[6]\<close>, with the local
  arrays \<^verbatim>\<open>d[3]\<close> and \<^verbatim>\<open>u[3][3]\<close> (a list of rows). Each \<^verbatim>\<open>for\<close> loop is a \<open>fold\<close>
  over its index range. \<open>InvertCholetsky3_pivot\<close> is the value of \<^verbatim>\<open>uud\<close> before the
  two masked assignments, \<open>clamp_pivot\<close> the two masked assignments, and
  \<open>InvertCholetsky3_step\<close> one pass of the outer decomposition loop.
\<close>

definition clamp_pivot :: "real \<Rightarrow> real" where
  "clamp_pivot uud0 =
    (let smallval = 1 / 10 ^ 12;
         uud = (if \<bar>uud0\<bar> < smallval then smallval else uud0);
         uud = (if \<bar>uud\<bar> < 1 / 10 ^ 8 then 1 / 10 ^ 8 else uud)
     in uud)"

definition InvertCholetsky3_pivot :: "real list \<Rightarrow> real list \<Rightarrow> real list list \<Rightarrow> nat \<Rightarrow> real" where
  "InvertCholetsky3_pivot a d u i =
    (let uud = fold (\<lambda>j uud. uud + u!j!i * u!j!i * d!j) [0..<i] 0
     in a ! (i * (i + 3) div 2) - uud)"

definition InvertCholetsky3_row ::
  "real list \<Rightarrow> nat \<Rightarrow> real list \<Rightarrow> real list list \<Rightarrow> real list list" where
  "InvertCholetsky3_row a i d u0 =
    fold (\<lambda>j u.
      let uud = fold (\<lambda>k uud. uud + u!k!i * u!k!j * d!k) [0..<i] 0;
          uud = a ! (j * (j + 1) div 2 + i) - uud
      in u[i := (u!i)[j := d!i / (u!i!i) * uud]]) [i + 1..<3] u0"

definition InvertCholetsky3_step ::
  "real list \<Rightarrow> nat \<Rightarrow> real list \<times> real list list \<Rightarrow> real list \<times> real list list" where
  "InvertCholetsky3_step a i du =
    (case du of (d, u) \<Rightarrow>
      let uud = clamp_pivot (InvertCholetsky3_pivot a d u i);
          d = d[i := uud / \<bar>uud\<bar>];
          u = u[i := (u!i)[i := sqrt \<bar>uud\<bar>]];
          u = InvertCholetsky3_row a i d u
      in (d, u))"

definition InvertCholetsky3_decompose :: "real list \<Rightarrow> nat \<Rightarrow> real list \<times> real list list" where
  "InvertCholetsky3_decompose a n =
     fold (InvertCholetsky3_step a) [0..<n] (replicate 3 0, replicate 3 (replicate 3 0))"

definition InvertCholetsky3 :: "real list \<Rightarrow> real list" where
  "InvertCholetsky3 a0 =
    (case InvertCholetsky3_decompose a0 3 of (d, u) \<Rightarrow>
      case fold (\<lambda>i (u1, u). (u1[i := u!i!i], u[i := (u!i)[i := 1 / (u!i!i)]])) [0..<3]
             (replicate 3 0, u) of (u1, u) \<Rightarrow>
      let u = fold (\<lambda>i u. u[i := (u!i)[i + 1 := - (u!i!(i + 1)) * (u!i!i) * (u!(i + 1)!(i + 1))]])
                [0..<2] u;
          u = fold (\<lambda>i u. u[i := (u!i)[i + 2 :=
                   u!i!(i + 1) * u1!(i + 1) * (u!(i + 1)!(i + 2))
                   - u!i!(i + 2) * (u!i!i) * (u!(i + 2)!(i + 2))]])
                [0..<1] u;
          a = fold (\<lambda>i a. a[i + 3 := u!i!2 * (u!2!2) * d!2]) [0..<3] a0;
          a = fold (\<lambda>i a. a[i + 1 := u!i!1 * (u!1!1) * d!1 + u!i!2 * (u!1!2) * d!2]) [0..<2] a;
          a = a[0 := u!0!0 * (u!0!0) * d!0 + u!0!1 * (u!0!1) * d!1 + u!0!2 * (u!0!2) * d!2]
      in a)"

text \<open>The shape of the local arrays: \<^verbatim>\<open>d[3]\<close> and \<^verbatim>\<open>u[3][3]\<close>.\<close>

definition shape3 :: "real list \<times> real list list \<Rightarrow> bool" where
  "shape3 du = (length (fst du) = 3 \<and> length (snd du) = 3 \<and> (\<forall>r \<in> set (snd du). length r = 3))"

section \<open>Mass constraints\<close>

text \<open>
  \<^verbatim>\<open>SetMassConstraint(mP, mC, mJ, mass, mask)\<close>, the nonlinear constraint on a state vector
  and covariance given as arrays. \<open>MassConstraint_lambda\<close> is the Lagrange multiplier:
  the start value from the three masked assignments, then the 100 Newton passes, each
  applied under the mask \<^verbatim>\<open>abs(df) > 1e-10\<close>. The parameter \<^verbatim>\<open>mask\<close> of the source is \<open>msk\<close>.
\<close>

definition MassConstraint_newton :: "real \<Rightarrow> real \<Rightarrow> real \<Rightarrow> real \<Rightarrow> real \<Rightarrow> real" where
  "MassConstraint_newton mass2 a b c lambda =
    (let lambda2 = lambda * lambda;
         lambda4 = lambda2 * lambda2;
         f = - mass2 * lambda4 + a * lambda2 + b * lambda + c;
         df = - 4 * mass2 * lambda2 * lambda + 2 * a * lambda + b
     in if \<bar>df\<bar> > 1 / 10 ^ 10 then lambda - f / df else lambda)"

definition MassConstraint_lambda :: "real list \<Rightarrow> real \<Rightarrow> real" where
  "MassConstraint_lambda mP mass =
    (let energy2 = mP!6 * mP!6;
         p2 = mP!3 * mP!3 + mP!4 * mP!4 + mP!5 * mP!5;
         mass2 = mass * mass;
         a = energy2 - p2 + 2 * mass2;
         b = - 2 * (energy2 + p2);
         c = energy2 - p2 - mass2;
         lambda = 0;
         lambda = (if \<bar>b\<bar> > 1 / 10 ^ 10 then - c / b else lambda);
         d = 4 * energy2 * p2 - mass2 * (energy2 - p2 - 2 * mass2);
         qMask = (d \<ge> 0 \<and> \<bar>a\<bar> > 1 / 10 ^ 10);
         lambda = (if qMask then (energy2 + p2 - sqrt d) / a else lambda);
         lambda = (if mP!6 < 0 then - 1000000 else lambda)
     in fold (\<lambda>iIter lambda. MassConstraint_newton mass2 a b c lambda) [0..<100] lambda)"

definition MassConstraint_mJ :: "real list \<Rightarrow> real \<Rightarrow> real \<Rightarrow> real list list" where
  "MassConstraint_mJ mP mass lambda =
    (let energy2 = mP!6 * mP!6;
         p2 = mP!3 * mP!3 + mP!4 * mP!4 + mP!5 * mP!5;
         mass2 = mass * mass;
         a = energy2 - p2 + 2 * mass2;
         b = - 2 * (energy2 + p2);
         lpi = 1 / (1 + lambda);
         lmi = 1 / (1 - lambda);
         lp2i = lpi * lpi;
         lm2i = lmi * lmi;
         lambda2 = lambda * lambda;
         dfl = - 4 * mass2 * lambda2 * lambda + 2 * a * lambda + b;
         dfx = [- 2 * (1 + lambda) * (1 + lambda) * mP!3,
                - 2 * (1 + lambda) * (1 + lambda) * mP!4,
                - 2 * (1 + lambda) * (1 + lambda) * mP!5,
                2 * (1 - lambda) * (1 - lambda) * mP!6, 0, 0, 0];
         dlx = fold (\<lambda>i dlx. dlx[i := (if \<bar>dfl\<bar> > 1 / 10 ^ 10 then - (dfx!i) / dfl else dlx!i)])
                 [0..<4] [1, 1, 1, 1];
         dxx = [mP!3 * lm2i, mP!4 * lm2i, mP!5 * lm2i, - (mP!6) * lp2i];
         mJ = replicate 7 (replicate 7 0);
         mJ = upd2 mJ 0 0 1;
         mJ = upd2 mJ 1 1 1;
         mJ = upd2 mJ 2 2 1;
         mJ = fold (\<lambda>i mJ. fold (\<lambda>j mJ. upd2 mJ i j (dlx!(j - 3) * dxx!(i - 3))) [3..<7] mJ)
                [3..<7] mJ;
         mJ = fold (\<lambda>i mJ. upd2 mJ i i (mJ!i!i + lmi)) [3..<6] mJ;
         mJ = upd2 mJ 6 6 (mJ!6!6 + lpi)
     in mJ)"

definition SetMassConstraint_arrays ::
  "real list \<Rightarrow> real list \<Rightarrow> real \<Rightarrow> bool \<Rightarrow> real list \<times> real list \<times> real list list" where
  "SetMassConstraint_arrays mP0 mC0 mass msk =
    (let lambda = MassConstraint_lambda mP0 mass;
         lpi = 1 / (1 + lambda);
         lmi = 1 / (1 - lambda);
         mJ = MassConstraint_mJ mP0 mass lambda;
         mCJ = map (\<lambda>i. map (\<lambda>j. sum_loop 7 (\<lambda>k. mC0 ! IJ i k * mJ!j!k)) [0..<7]) [0..<7];
         mC = fold (\<lambda>i mC. fold (\<lambda>j mC.
                 (if msk then mC[IJ i j := sum_loop 7 (\<lambda>l. mJ!i!l * mCJ!l!j)] else mC))
                 [0..<i + 1] mC) [0..<7] mC0;
         mP = mP0;
         mP = (if msk then mP[3 := mP!3 * lmi] else mP);
         mP = (if msk then mP[4 := mP!4 * lmi] else mP);
         mP = (if msk then mP[5 := mP!5 * lmi] else mP);
         mP = (if msk then mP[6 := mP!6 * lpi] else mP)
     in (mP, mC, mJ))"

definition SetNonlinearMassConstraint :: "real \<Rightarrow> KFParticleBaseSIMD \<Rightarrow> KFParticleBaseSIMD" where
  "SetNonlinearMassConstraint mass p =
    (case SetMassConstraint_arrays (fP p) (fC p) mass True of
       (mP, mC, mJ) \<Rightarrow> p\<lparr>fP := mP, fC := mC, fMassHypo := mass, SumDaughterMass := mass\<rparr>)"

text \<open>
  \<^verbatim>\<open>SetMassConstraint(Mass, SigmaMass)\<close>, the linear constraint: one Kalman update with
  the measurement \<open>m\<^sup>2\<close>. \<open>SetMassConstraint_zeta\<close> is the residual \<^verbatim>\<open>zeta\<close> (after its
  second assignment), \<open>SetMassConstraint_mCHt\<close> the array \<^verbatim>\<open>mCHt[8]\<close> and
  \<open>SetMassConstraint_w2\<close> the weight \<^verbatim>\<open>w2\<close>. The last loop updates \<^verbatim>\<open>fP[i]\<close> and the row
  \<open>i\<close> of \<^verbatim>\<open>fC\<close>, with the running index \<^verbatim>\<open>ii\<close>.
\<close>

definition SetMassConstraint_mH :: "KFParticleBaseSIMD \<Rightarrow> real list" where
  "SetMassConstraint_mH p =
     [0, 0, 0, - 2 * fP p ! 3, - 2 * fP p ! 4, - 2 * fP p ! 5, 2 * fP p ! 6, 0]"

definition SetMassConstraint_zeta :: "real \<Rightarrow> KFParticleBaseSIMD \<Rightarrow> real" where
  "SetMassConstraint_zeta Mass p =
    (let m2 = Mass * Mass;
         p2 = fP p ! 3 * fP p ! 3 + fP p ! 4 * fP p ! 4 + fP p ! 5 * fP p ! 5;
         e0 = sqrt (m2 + p2);
         zeta = e0 * e0 - e0 * fP p ! 6;
         zeta = m2 - (fP p ! 6 * fP p ! 6 - p2)
     in zeta)"

definition SetMassConstraint_mCHt :: "KFParticleBaseSIMD \<Rightarrow> real list" where
  "SetMassConstraint_mCHt p =
     map (\<lambda>i. sum_loop 8 (\<lambda>j. Cij p i j * SetMassConstraint_mH p ! j)) [0..<8]"

definition SetMassConstraint_w2 :: "real \<Rightarrow> real \<Rightarrow> KFParticleBaseSIMD \<Rightarrow> real" where
  "SetMassConstraint_w2 Mass SigmaMass p =
    (let m2 = Mass * Mass;
         s2 = m2 * SigmaMass * SigmaMass;
         s2_est = sum_loop 8 (\<lambda>i. SetMassConstraint_mH p ! i * SetMassConstraint_mCHt p ! i)
     in 1 / (s2 + s2_est))"

definition SetMassConstraint :: "real \<Rightarrow> real \<Rightarrow> KFParticleBaseSIMD \<Rightarrow> KFParticleBaseSIMD" where
  "SetMassConstraint Mass SigmaMass p0 =
    (let p = p0\<lparr>fMassHypo := Mass, SumDaughterMass := Mass\<rparr>;
         zeta = SetMassConstraint_zeta Mass p;
         mCHt = SetMassConstraint_mCHt p;
         w2 = SetMassConstraint_w2 Mass SigmaMass p;
         p = p\<lparr>fChi2 := fChi2 p + zeta * zeta * w2\<rparr>;
         p = p\<lparr>fNDF := fNDF p + 1\<rparr>
     in case fold (\<lambda>i (P, C, ii).
               let ki = mCHt!i * w2;
                   P = P[i := P!i + ki * zeta]
               in fold (\<lambda>j (P, C, ii). (P, C[ii := C!ii - ki * mCHt!j], ii + 1)) [0..<i + 1] (P, C, ii))
             [0..<8] (fP p, fC p, 0) of
          (P, C, ii) \<Rightarrow> p\<lparr>fP := P, fC := C\<rparr>)"

section \<open>The measurement of a daughter at a point\<close>

text \<open>
  \<^verbatim>\<open>GetSCorrection(Part, XYZ)\<close>: \<^verbatim>\<open>p2\<close> is first raised to \<open>10\<^sup>-\<^sup>4\<close> under the mask
  \<^verbatim>\<open>1e-4 >= p2\<close>, and \<^verbatim>\<open>sigmaS\<close>, which starts at 1, is assigned under the mask
  \<^verbatim>\<open>1e-4 < p2\<close> on the new \<^verbatim>\<open>p2\<close>.
\<close>

definition GetSCorrection :: "real list \<Rightarrow> real list \<Rightarrow> real" where
  "GetSCorrection Part XYZ =
    (let d0 = XYZ!0 - Part!0; d1 = XYZ!1 - Part!1; d2 = XYZ!2 - Part!2;
         p2 = Part!3 * Part!3 + Part!4 * Part!4 + Part!5 * Part!5;
         sigmaS = 1;
         p2 = (if 1 / 10 ^ 4 \<ge> p2 then 1 / 10 ^ 4 else p2);
         sigmaS = (if 1 / 10 ^ 4 < p2
                   then 1 / 10 + 10 * sqrt ((d0 * d0 + d1 * d1 + d2 * d2) / p2) else sigmaS)
     in sigmaS)"

text \<open>
  \<^verbatim>\<open>GetMeasurement(XYZ, m, V, isAtVtxGuess)\<close> writes the output arrays \<^verbatim>\<open>m\<close> and \<^verbatim>\<open>V\<close>.
  When \<^verbatim>\<open>isAtVtxGuess\<close> is set, the second copy loop runs over the first 8 entries of
  \<^verbatim>\<open>V\<close> only, so the other entries keep what the caller's array held: \<open>V0\<close> is the
  content of \<^verbatim>\<open>V\<close> at the call. Otherwise the virtual \<^verbatim>\<open>Transport\<close> writes both arrays.
  \<^verbatim>\<open>GetQ()\<close> reads \<^verbatim>\<open>fQ\<close>.
\<close>

definition GetMeasurement ::
  "KFVirtuals \<Rightarrow> KFParticleBaseSIMD \<Rightarrow> real list \<Rightarrow> bool \<Rightarrow> real list \<Rightarrow> real list \<times> real list" where
  "GetMeasurement VI p XYZ isAtVtxGuess V0 =
    (let b = GetFieldValue VI XYZ;
         b0 = b!0 * (kCLight * fQ p); b1 = b!1 * (kCLight * fQ p); b2 = b!2 * (kCLight * fQ p);
         (m, V) = (if \<not> isAtVtxGuess then Transport VI p (GetDStoPoint VI p XYZ)
                   else (map (\<lambda>iM. fP p ! iM) [0..<8],
                         fold (\<lambda>iV V. V[iV := fC p ! iV]) [0..<8] V0));
         sigmaS = GetSCorrection m XYZ;
         h0 = m!3 * sigmaS;
         h1 = m!4 * sigmaS;
         h2 = m!5 * sigmaS;
         h3 = h1 * b2 - h2 * b1;
         h4 = h2 * b0 - h0 * b2;
         h5 = h0 * b1 - h1 * b0;
         V = V[0 := V!0 + h0 * h0];
         V = V[1 := V!1 + h1 * h0];
         V = V[2 := V!2 + h1 * h1];
         V = V[3 := V!3 + h2 * h0];
         V = V[4 := V!4 + h2 * h1];
         V = V[5 := V!5 + h2 * h2];
         V = V[6 := V!6 + h3 * h0];
         V = V[7 := V!7 + h3 * h1];
         V = V[8 := V!8 + h3 * h2];
         V = V[9 := V!9 + h3 * h3];
         V = V[10 := V!10 + h4 * h0];
         V = V[11 := V!11 + h4 * h1];
         V = V[12 := V!12 + h4 * h2];
         V = V[13 := V!13 + h4 * h3];
         V = V[14 := V!14 + h4 * h4];
         V = V[15 := V!15 + h5 * h0];
         V = V[16 := V!16 + h5 * h1];
         V = V[17 := V!17 + h5 * h2];
         V = V[18 := V!18 + h5 * h3];
         V = V[19 := V!19 + h5 * h4];
         V = V[20 := V!20 + h5 * h5]
     in (m, V))"

text \<open>
  The Kalman gain rows \<^verbatim>\<open>k0\<close>, \<^verbatim>\<open>k1\<close>, \<^verbatim>\<open>k2\<close> from the rows \<^verbatim>\<open>mCHt0\<close>, \<^verbatim>\<open>mCHt1\<close>,
  \<^verbatim>\<open>mCHt2\<close> and the inverted \<^verbatim>\<open>mS\<close>: the loop
  \<^verbatim>\<open>for (i = 0; i < n; ++i) { k0[i] = ...; k1[i] = ...; k2[i] = ...; }\<close> that all the
  update functions share, and the quadratic form \<open>zeta\<^sup>T S zeta\<close> of their chi-square.
\<close>

definition gain_rows ::
  "nat \<Rightarrow> real list \<Rightarrow> real list \<Rightarrow> real list \<Rightarrow> real list \<Rightarrow> real list \<times> real list \<times> real list" where
  "gain_rows n mCHt0 mCHt1 mCHt2 mS =
     (map (\<lambda>i. mCHt0!i * mS!0 + mCHt1!i * mS!1 + mCHt2!i * mS!3) [0..<n],
      map (\<lambda>i. mCHt0!i * mS!1 + mCHt1!i * mS!2 + mCHt2!i * mS!4) [0..<n],
      map (\<lambda>i. mCHt0!i * mS!3 + mCHt1!i * mS!4 + mCHt2!i * mS!5) [0..<n])"

definition chi2_form :: "real list \<Rightarrow> real list \<Rightarrow> real" where
  "chi2_form mS zeta =
     (mS!0 * zeta!0 + mS!1 * zeta!1 + mS!3 * zeta!2) * zeta!0
     + (mS!1 * zeta!0 + mS!2 * zeta!1 + mS!4 * zeta!2) * zeta!1
     + (mS!3 * zeta!0 + mS!4 * zeta!1 + mS!5 * zeta!2) * zeta!2"

section \<open>Subtracting a particle from a vertex\<close>

text \<open>
  Modelled from the spec: the header, with the default of \<^verbatim>\<open>GetMeasurement\<close>'s fourth
  parameter, is not part of the sources. The call \<^verbatim>\<open>GetMeasurement(XYZ, m, mCm)\<close> is taken
  with \<^verbatim>\<open>isAtVtxGuess\<close> false.

  \<^verbatim>\<open>SubtractFromVertex(Vtx)\<close> of the particle \<open>p\<close>; the result is the new \<^verbatim>\<open>Vtx\<close>.
  \<open>mCm0\<close> is the content of the uninitialised local array \<^verbatim>\<open>mCm\<close>.
  The intermediate values are definitions of their own: \<open>SubtractFromVertex_m\<close> the
  measurement, \<open>SubtractFromVertex_mS\<close> the inverted \<^verbatim>\<open>mS\<close>, \<open>SubtractFromVertex_zeta\<close>
  the residual, \<open>SubtractFromVertex_K\<close> the gain rows, \<open>SubtractFromVertex_dChi2\<close> the
  chi-square change.

  The local \<^verbatim>\<open>mask\<close> is \<^verbatim>\<open>float_v(1.f>0.f)\<close>: the comparison of two scalar literals is a C++
  \<^verbatim>\<open>bool\<close>, so the vector holds the number 1 in every lane, and each update term is
  \<^verbatim>\<open>mask & value\<close>, the conjunction of the bit patterns of the two numbers.
  \<open>SubtractFromVertex_body\<close> is the function body with the local \<^verbatim>\<open>mask\<close> as an argument.
\<close>

definition SubtractFromVertex_m ::
  "KFVirtuals \<Rightarrow> real list \<Rightarrow> KFParticleBaseSIMD \<Rightarrow> KFParticleBaseSIMD \<Rightarrow> real list \<times> real list" where
  "SubtractFromVertex_m VI mCm0 p Vtx =
    (if fIsLinearized Vtx then GetMeasurement VI p (fVtxGuess Vtx) False mCm0
     else GetMeasurement VI p (fP Vtx) False mCm0)"

definition SubtractFromVertex_mS ::
  "KFVirtuals \<Rightarrow> real list \<Rightarrow> KFParticleBaseSIMD \<Rightarrow> KFParticleBaseSIMD \<Rightarrow> real list" where
  "SubtractFromVertex_mS VI mCm0 p Vtx =
    (case SubtractFromVertex_m VI mCm0 p Vtx of (m, mCm) \<Rightarrow>
      let mV = [mCm!0, mCm!1, mCm!2, mCm!3, mCm!4, mCm!5]
      in InvertCholetsky3 [mV!0 - fC Vtx ! 0,
                           mV!1 - fC Vtx ! 1, mV!2 - fC Vtx ! 2,
                           mV!3 - fC Vtx ! 3, mV!4 - fC Vtx ! 4, mV!5 - fC Vtx ! 5])"

definition SubtractFromVertex_zeta ::
  "KFVirtuals \<Rightarrow> real list \<Rightarrow> KFParticleBaseSIMD \<Rightarrow> KFParticleBaseSIMD \<Rightarrow> real list" where
  "SubtractFromVertex_zeta VI mCm0 p Vtx =
    (case SubtractFromVertex_m VI mCm0 p Vtx of (m, mCm) \<Rightarrow>
      [m!0 - fP Vtx ! 0, m!1 - fP Vtx ! 1, m!2 - fP Vtx ! 2])"

definition SubtractFromVertex_mCHt :: "KFParticleBaseSIMD \<Rightarrow> real list \<times> real list \<times> real list" where
  "SubtractFromVertex_mCHt Vtx =
     ([fC Vtx ! 0, fC Vtx ! 1, fC Vtx ! 3],
      [fC Vtx ! 1, fC Vtx ! 2, fC Vtx ! 4],
      [fC Vtx ! 3, fC Vtx ! 4, fC Vtx ! 5])"

definition SubtractFromVertex_K ::
  "KFVirtuals \<Rightarrow> real list \<Rightarrow> KFParticleBaseSIMD \<Rightarrow> KFParticleBaseSIMD
     \<Rightarrow> real list \<times> real list \<times> real list" where
  "SubtractFromVertex_K VI mCm0 p Vtx =
    (case SubtractFromVertex_mCHt Vtx of (mCHt0, mCHt1, mCHt2) \<Rightarrow>
       gain_rows 3 mCHt0 mCHt1 mCHt2 (SubtractFromVertex_mS VI mCm0 p Vtx))"

definition SubtractFromVertex_dChi2 ::
  "KFVirtuals \<Rightarrow> real list \<Rightarrow> KFParticleBaseSIMD \<Rightarrow> KFParticleBaseSIMD \<Rightarrow> real" where
  "SubtractFromVertex_dChi2 VI mCm0 p Vtx =
    (let mS = SubtractFromVertex_mS VI mCm0 p Vtx;
         zeta = SubtractFromVertex_zeta VI mCm0 p Vtx
     in - (mS!0 * zeta!0 + mS!1 * zeta!1 + mS!3 * zeta!2) * zeta!0
        - (mS!1 * zeta!0 + mS!2 * zeta!1 + mS!4 * zeta!2) * zeta!1
        - (mS!3 * zeta!0 + mS!4 * zeta!1 + mS!5 * zeta!2) * zeta!2)"

definition SubtractFromVertex_body ::
  "real \<Rightarrow> KFVirtuals \<Rightarrow> real list \<Rightarrow> KFParticleBaseSIMD \<Rightarrow> KFParticleBaseSIMD \<Rightarrow> KFParticleBaseSIMD" where
  "SubtractFromVertex_body msk VI mCm0 p Vtx =
    (case SubtractFromVertex_mCHt Vtx of (mCHt0, mCHt1, mCHt2) \<Rightarrow>
     case SubtractFromVertex_K VI mCm0 p Vtx of (k0, k1, k2) \<Rightarrow>
      let zeta = SubtractFromVertex_zeta VI mCm0 p Vtx;
          dChi2 = SubtractFromVertex_dChi2 VI mCm0 p Vtx;
          P = fold (\<lambda>i P. P[i := P!i - float_and msk (k0!i * zeta!0 + k1!i * zeta!1 + k2!i * zeta!2)])
                [0..<3] (fP Vtx);
          (C, k) = fold (\<lambda>i (C, k). fold (\<lambda>j (C, k).
                      (C[k := C!k + float_and msk (k0!i * mCHt0!j + k1!i * mCHt1!j + k2!i * mCHt2!j)],
                       k + 1)) [0..<i + 1] (C, k)) [0..<3] (fC Vtx, 0)
      in Vtx\<lparr>fP := P, fC := C, fNDF := fNDF Vtx - 2, fChi2 := fChi2 Vtx + float_and msk dChi2\<rparr>)"

definition SubtractFromVertex ::
  "KFVirtuals \<Rightarrow> real list \<Rightarrow> KFParticleBaseSIMD \<Rightarrow> KFParticleBaseSIMD \<Rightarrow> KFParticleBaseSIMD" where
  "SubtractFromVertex VI mCm0 p Vtx = SubtractFromVertex_body (float_v_of_bool ((1::real) > 0)) VI mCm0 p Vtx"

text \<open>
  The Kalman downdate in the words of the specification, applied whatever the sign of
  the chi-square change: the vertex position loses the gain times the residual, the
  position covariance gains \<open>K (C H\<^sup>T)\<^sup>T\<close>, the chi-square gains \<^verbatim>\<open>dChi2\<close> and the number of
  degrees of freedom drops by 2.
\<close>

definition Kalman_downdate ::
  "KFVirtuals \<Rightarrow> real list \<Rightarrow> KFParticleBaseSIMD \<Rightarrow> KFParticleBaseSIMD \<Rightarrow> KFParticleBaseSIMD" where
  "Kalman_downdate VI mCm0 p Vtx =
    (case SubtractFromVertex_mCHt Vtx of (h0, h1, h2) \<Rightarrow>
     case SubtractFromVertex_K VI mCm0 p Vtx of (k0, k1, k2) \<Rightarrow>
      let zeta = SubtractFromVertex_zeta VI mCm0 p Vtx;
          gain = (\<lambda>i. k0!i * zeta!0 + k1!i * zeta!1 + k2!i * zeta!2);
          cov = (\<lambda>i j. k0!i * h0!j + k1!i * h1!j + k2!i * h2!j);
          P = fP Vtx; C = fC Vtx
      in Vtx\<lparr>fP := [P!0 - gain 0, P!1 - gain 1, P!2 - gain 2] @ drop 3 P,
              fC := [C!0 + cov 0 0, C!1 + cov 1 0, C!2 + cov 1 1,
                     C!3 + cov 2 0, C!4 + cov 2 1, C!5 + cov 2 2] @ drop 6 C,
              fNDF := fNDF Vtx - 2,
              fChi2 := fChi2 Vtx + SubtractFromVertex_dChi2 VI mCm0 p Vtx\<rparr>)"
section \<open>Adding a daughter\<close>

text \<open>
  Helpers for the in-place updates of the source: \<^verbatim>\<open>x[i] += v\<close>, the loop
  \<^verbatim>\<open>for (i = 0, k = 0; i < n; ++i) for (j = 0; j <= i; ++j, ++k) C[k] = g(i, j, C[k])\<close> over
  a packed triangle, and \<^verbatim>\<open>for (iter = i0; iter < maxIter; iter++) body\<close> on \<^verbatim>\<open>Int_t\<close>
  counters.
\<close>

definition add_at :: "real list \<Rightarrow> nat \<Rightarrow> real \<Rightarrow> real list" where
  "add_at xs i v = xs[i := xs!i + v]"

definition tri_loop :: "nat \<Rightarrow> (nat \<Rightarrow> nat \<Rightarrow> real \<Rightarrow> real) \<Rightarrow> real list \<Rightarrow> real list" where
  "tri_loop n g C0 =
     fst (fold (\<lambda>i Ck. fold (\<lambda>j (C, k). (C[k := g i j (C!k)], k + 1)) [0..<i + 1] Ck)
            [0..<n] (C0, 0))"

function for_loop :: "int \<Rightarrow> (int \<Rightarrow> 'a \<Rightarrow> 'a) \<Rightarrow> int \<Rightarrow> 'a \<Rightarrow> 'a" where
  "for_loop maxIter body iter s =
     (if iter < maxIter then for_loop maxIter body (iter + 1) (body iter s) else s)"
  by pat_completeness auto
termination
  by (relation "measure (\<lambda>(maxIter, body, iter, s). nat (maxIter - iter))") auto

text \<open>
  The start of \<^verbatim>\<open>AddDaughterWithEnergyFit\<close>, \<^verbatim>\<open>AddDaughterWithEnergyCalc\<close> and
  \<^verbatim>\<open>AddDaughterWithEnergyFitMC\<close>, the same text in the three functions: the choice of
  \<^verbatim>\<open>maxIter\<close> and of the first vertex guess. The result is \<^verbatim>\<open>maxIter\<close> and the object.
  Tests on lane 0 (\<^verbatim>\<open>int(fNDF[0])\<close>, \<^verbatim>\<open>float(Daughter.fC[35][0])\<close>) are tests on the lane
  that is modelled.
\<close>

definition AddDaughter_linearize ::
  "KFVirtuals \<Rightarrow> KFParticleBaseSIMD \<Rightarrow> bool \<Rightarrow> KFParticleBaseSIMD \<Rightarrow> int \<times> KFParticleBaseSIMD" where
  "AddDaughter_linearize VI Daughter isAtVtxGuess p =
    (if (\<not> fIsLinearized p) \<and> (\<not> isAtVtxGuess) then
       (if fNDF p = - 1 then
          (case GetDStoParticle VI p Daughter of (ds, ds1) \<Rightarrow>
            let p = TransportToDS VI ds p in
            case Transport VI Daughter ds1 of (m, mCd) \<Rightarrow>
              (3, p\<lparr>fVtxGuess := [(1 / 2) * (fP p ! 0 + m!0),
                                   (1 / 2) * (fP p ! 1 + m!1),
                                   (1 / 2) * (fP p ! 2 + m!2)]\<rparr>))
        else (3, p\<lparr>fVtxGuess := [fP p ! 0, fP p ! 1, fP p ! 2]\<rparr>))
     else (1, p))"

text \<open>
  The daughter's measurement \<^verbatim>\<open>m\<close>, \<^verbatim>\<open>mV\<close> of one pass: through \<^verbatim>\<open>GetMeasurement\<close> when
  the daughter's \<^verbatim>\<open>fC[35]\<close> is positive, a copy of its parameters otherwise. \<open>mV0\<close> is
  the content of the uninitialised local array \<^verbatim>\<open>mV\<close>.
\<close>

definition AddDaughter_measurement ::
  "KFVirtuals \<Rightarrow> real list \<Rightarrow> KFParticleBaseSIMD \<Rightarrow> bool \<Rightarrow> KFParticleBaseSIMD
     \<Rightarrow> real list \<times> real list" where
  "AddDaughter_measurement VI mV0 Daughter isAtVtxGuess p =
    (if fC Daughter ! 35 > 0 then GetMeasurement VI Daughter (fVtxGuess p) isAtVtxGuess mV0
     else (map (\<lambda>i. fP Daughter ! i) [0..<8], map (\<lambda>i. fC Daughter ! i) [0..<36]))"

definition AddDaughter_mS :: "real list \<Rightarrow> real list \<Rightarrow> real list" where
  "AddDaughter_mS C mV =
     InvertCholetsky3 [C!0 + mV!0,
                       C!1 + mV!1, C!2 + mV!2,
                       C!3 + mV!3, C!4 + mV!4, C!5 + mV!5]"

definition AddDaughter_zeta :: "real list \<Rightarrow> real list \<Rightarrow> real list" where
  "AddDaughter_zeta P m = [m!0 - P!0, m!1 - P!1, m!2 - P!2]"

text \<open>The new vertex guess of a pass that is not the last one.\<close>

definition AddDaughter_guess ::
  "real list \<Rightarrow> real list \<times> real list \<times> real list \<Rightarrow> real list \<Rightarrow> real list \<Rightarrow> real list" where
  "AddDaughter_guess P K zeta G0 =
    (case K of (k0, k1, k2) \<Rightarrow>
       fold (\<lambda>i G. G[i := P!i + k0!i * zeta!0 + k1!i * zeta!1 + k2!i * zeta!2]) [0..<3] G0)"

text \<open>
  The end of the last pass, the same text in the three functions, under the test
  \<^verbatim>\<open>iter == maxIter - 1\<close>.
\<close>

definition AddDaughter_bookkeeping ::
  "int \<Rightarrow> int \<Rightarrow> KFParticleBaseSIMD \<Rightarrow> real list \<Rightarrow> real list \<Rightarrow> KFParticleBaseSIMD \<Rightarrow> KFParticleBaseSIMD" where
  "AddDaughter_bookkeeping maxIter iter Daughter mS zeta p =
    (if iter = maxIter - 1 then
       p\<lparr>fNDF := fNDF p + 2, fQ := fQ p + fQ Daughter, fSFromDecay := 0,
         fChi2 := fChi2 p + chi2_form mS zeta\<rparr>
     else p)"

subsection \<open>Independent energy fit\<close>

definition EnergyFit_mCHt :: "real list \<Rightarrow> real list \<Rightarrow> real list \<times> real list \<times> real list" where
  "EnergyFit_mCHt C mV =
     ([C!0, C!1, C!3, C!6 - mV!6, C!10 - mV!10, C!15 - mV!15, C!21 - mV!21],
      [C!1, C!2, C!4, C!7 - mV!7, C!11 - mV!11, C!16 - mV!16, C!22 - mV!22],
      [C!3, C!4, C!5, C!8 - mV!8, C!12 - mV!12, C!17 - mV!17, C!23 - mV!23])"

definition EnergyFit_update ::
  "real list \<Rightarrow> real list \<Rightarrow> real list \<Rightarrow> real list \<Rightarrow> real list \<times> real list" where
  "EnergyFit_update P0 C0 m mV =
    (case EnergyFit_mCHt C0 mV of (mCHt0, mCHt1, mCHt2) \<Rightarrow>
     case gain_rows 7 mCHt0 mCHt1 mCHt2 (AddDaughter_mS C0 mV) of (k0, k1, k2) \<Rightarrow>
      let zeta = AddDaughter_zeta P0 m;
          P = add_at P0 3 (m!3);
          P = add_at P 4 (m!4);
          P = add_at P 5 (m!5);
          P = add_at P 6 (m!6);
          C = add_at C0 9 (mV!9);
          C = add_at C 13 (mV!13);
          C = add_at C 14 (mV!14);
          C = add_at C 18 (mV!18);
          C = add_at C 19 (mV!19);
          C = add_at C 20 (mV!20);
          C = add_at C 24 (mV!24);
          C = add_at C 25 (mV!25);
          C = add_at C 26 (mV!26);
          C = add_at C 27 (mV!27);
          P = fold (\<lambda>i P. P[i := P!i + (k0!i * zeta!0 + k1!i * zeta!1 + k2!i * zeta!2)]) [0..<7] P;
          C = tri_loop 7 (\<lambda>i j c. c - (k0!i * mCHt0!j + k1!i * mCHt1!j + k2!i * mCHt2!j)) C
      in (P, C))"

definition AddDaughterWithEnergyFit_pass ::
  "KFVirtuals \<Rightarrow> (int \<Rightarrow> real list) \<Rightarrow> KFParticleBaseSIMD \<Rightarrow> bool \<Rightarrow> int \<Rightarrow> int
     \<Rightarrow> KFParticleBaseSIMD \<Rightarrow> KFParticleBaseSIMD" where
  "AddDaughterWithEnergyFit_pass VI mV0 Daughter isAtVtxGuess maxIter iter p =
    (case AddDaughter_measurement VI (mV0 iter) Daughter isAtVtxGuess p of (m, mV) \<Rightarrow>
     case EnergyFit_mCHt (fC p) mV of (mCHt0, mCHt1, mCHt2) \<Rightarrow>
      let mS = AddDaughter_mS (fC p) mV;
          zeta = AddDaughter_zeta (fP p) m;
          K = gain_rows 7 mCHt0 mCHt1 mCHt2 mS
      in if iter < maxIter - 1
         then p\<lparr>fVtxGuess := AddDaughter_guess (fP p) K zeta (fVtxGuess p)\<rparr>
         else (case EnergyFit_update (fP p) (fC p) m mV of (P, C) \<Rightarrow>
                 AddDaughter_bookkeeping maxIter iter Daughter mS zeta (p\<lparr>fP := P, fC := C\<rparr>)))"

definition AddDaughterWithEnergyFit ::
  "KFVirtuals \<Rightarrow> (int \<Rightarrow> real list) \<Rightarrow> KFParticleBaseSIMD \<Rightarrow> bool
     \<Rightarrow> KFParticleBaseSIMD \<Rightarrow> KFParticleBaseSIMD" where
  "AddDaughterWithEnergyFit VI mV0 Daughter isAtVtxGuess p =
    (case AddDaughter_linearize VI Daughter isAtVtxGuess p of (maxIter, p) \<Rightarrow>
       for_loop maxIter (AddDaughterWithEnergyFit_pass VI mV0 Daughter isAtVtxGuess maxIter) 0 p)"

subsection \<open>Energy calculated from momentum and mass\<close>

text \<open>
  \<open>small\<close> is the file's constant \<^verbatim>\<open>small = 1.e-20f\<close>. \<open>energy_rows\<close> is the block that
  rewrites the entries 21 to 27 of \<^verbatim>\<open>mVf\<close> with \<^verbatim>\<open>hmf\<close>, and of \<^verbatim>\<open>mCf\<close> with \<^verbatim>\<open>hrf\<close>
  (the same text twice); the entries 24, 25, 26 are saved before they are overwritten.
\<close>

definition small :: real where
  "small = 1 / 10 ^ 20"

definition energy_rows :: "real list \<Rightarrow> real list \<Rightarrow> real list" where
  "energy_rows mVf0 hmf =
    (let mVf = mVf0;
         mVf24 = mVf!24; mVf25 = mVf!25; mVf26 = mVf!26;
         mVf = mVf[21 := mVf!6 * hmf!3 + mVf!10 * hmf!4 + mVf!15 * hmf!5 + mVf!21 * hmf!6];
         mVf = mVf[22 := mVf!7 * hmf!3 + mVf!11 * hmf!4 + mVf!16 * hmf!5 + mVf!22 * hmf!6];
         mVf = mVf[23 := mVf!8 * hmf!3 + mVf!12 * hmf!4 + mVf!17 * hmf!5 + mVf!23 * hmf!6];
         mVf = mVf[24 := mVf!9 * hmf!3 + mVf!13 * hmf!4 + mVf!18 * hmf!5 + mVf!24 * hmf!6];
         mVf = mVf[25 := mVf!13 * hmf!3 + mVf!14 * hmf!4 + mVf!19 * hmf!5 + mVf!25 * hmf!6];
         mVf = mVf[26 := mVf!18 * hmf!3 + mVf!19 * hmf!4 + mVf!20 * hmf!5 + mVf!26 * hmf!6];
         mVf = mVf[27 := mVf!24 * hmf!3 + mVf!25 * hmf!4 + mVf!26 * hmf!5
                         + (mVf24 * hmf!3 + mVf25 * hmf!4 + mVf26 * hmf!5 + mVf!27 * hmf!6) * hmf!6]
     in mVf)"

definition EnergyCalc_mCHt :: "real list \<Rightarrow> real list \<Rightarrow> real list \<times> real list \<times> real list" where
  "EnergyCalc_mCHt C mV =
     ([C!0, C!1, C!3, C!6 - mV!6, C!10 - mV!10, C!15 - mV!15],
      [C!1, C!2, C!4, C!7 - mV!7, C!11 - mV!11, C!16 - mV!16],
      [C!3, C!4, C!5, C!8 - mV!8, C!12 - mV!12, C!17 - mV!17])"

definition EnergyCalc_update ::
  "real list \<Rightarrow> real list \<Rightarrow> real list \<Rightarrow> real list \<Rightarrow> real list \<times> real list" where
  "EnergyCalc_update P0 C0 m mV0 =
    (case EnergyCalc_mCHt C0 mV0 of (mCHt0, mCHt1, mCHt2) \<Rightarrow>
     case gain_rows 6 mCHt0 mCHt1 mCHt2 (AddDaughter_mS C0 mV0) of (k0, k1, k2) \<Rightarrow>
      let massMf2 = m!6 * m!6 - (m!3 * m!3 + m!4 * m!4 + m!5 * m!5);
          massRf2 = P0!6 * P0!6 - (P0!3 * P0!3 + P0!4 * P0!4 + P0!5 * P0!5);
          mS = AddDaughter_mS C0 mV0;
          zeta = AddDaughter_zeta P0 m;
          mVHt0 = [mV0!0, mV0!1, mV0!3, mV0!6, mV0!10, mV0!15];
          mVHt1 = [mV0!1, mV0!2, mV0!4, mV0!7, mV0!11, mV0!16];
          mVHt2 = [mV0!3, mV0!4, mV0!5, mV0!8, mV0!12, mV0!17]
      in case gain_rows 6 mVHt0 mVHt1 mVHt2 mS of (km0, km1, km2) \<Rightarrow>
      let mf = [m!0, m!1, m!2, m!3, m!4, m!5, m!6];
          mf = fold (\<lambda>i mf. mf[i := mf!i - km0!i * zeta!0 - km1!i * zeta!1 - km2!i * zeta!2])
                 [0..<6] mf;
          energyMf = sqrt (massMf2 + (mf!3 * mf!3 + mf!4 * mf!4 + mf!5 * mf!5));
          mVf = map (\<lambda>iC. mV0!iC) [0..<28];
          hmf = [0, 0, 0, 0, 0, 0, 0];
          hmf = hmf[3 := (if \<bar>energyMf\<bar> \<ge> small then hmf!3 / energyMf else hmf!3)];
          hmf = hmf[4 := (if \<bar>energyMf\<bar> \<ge> small then hmf!4 / energyMf else hmf!4)];
          hmf = hmf[5 := (if \<bar>energyMf\<bar> \<ge> small then hmf!5 / energyMf else hmf!5)];
          hmf = hmf[6 := 0];
          mVf = tri_loop 6 (\<lambda>i j c. c - (km0!i * mVHt0!j + km1!i * mVHt1!j + km2!i * mVHt2!j)) mVf;
          mVf = energy_rows mVf hmf;
          mf = mf[6 := energyMf];
          mCCHt0 = [C0!0, C0!1, C0!3, C0!6, C0!10, C0!15];
          mCCHt1 = [C0!1, C0!2, C0!4, C0!7, C0!11, C0!16];
          mCCHt2 = [C0!3, C0!4, C0!5, C0!8, C0!12, C0!17]
      in case gain_rows 6 mCCHt0 mCCHt1 mCCHt2 mS of (krf0, krf1, krf2) \<Rightarrow>
      let rf = [P0!0, P0!1, P0!2, P0!3, P0!4, P0!5, P0!6];
          rf = fold (\<lambda>i rf. rf[i := rf!i + krf0!i * zeta!0 + krf1!i * zeta!1 + krf2!i * zeta!2])
                 [0..<6] rf;
          energyRf = sqrt (massRf2 + (rf!3 * rf!3 + rf!4 * rf!4 + rf!5 * rf!5));
          mCf = map (\<lambda>iC. C0!iC) [0..<28];
          hrf = [0, 0, 0, 0, 0, 0, 0];
          hrf = hrf[3 := (if \<bar>energyRf\<bar> \<ge> small then rf!3 / energyRf else hrf!3)];
          hrf = hrf[4 := (if \<bar>energyRf\<bar> \<ge> small then rf!4 / energyRf else hrf!4)];
          hrf = hrf[5 := (if \<bar>energyRf\<bar> \<ge> small then rf!5 / energyRf else hrf!5)];
          hrf = hrf[6 := 0];
          mCf = tri_loop 6 (\<lambda>i j c. c - (krf0!i * mCCHt0!j + krf1!i * mCCHt1!j + krf2!i * mCCHt2!j)) mCf;
          mCf = energy_rows mCf hrf;
          C = fold (\<lambda>iC C. C[iC := mCf!iC]) [21..<28] C0;
          mV = fold (\<lambda>iC mV. mV[iC := mVf!iC]) [21..<28] mV0;
          P = P0[6 := energyRf + energyMf];
          rf = rf[6 := energyRf];
          mDvp = map (\<lambda>i. map (\<lambda>j. km0!(i + 3) * mCCHt0!j + km1!(i + 3) * mCCHt1!j
                                     + km2!(i + 3) * mCCHt2!j) [0..<3]) [0..<3];
          mDpv = map (\<lambda>i. map (\<lambda>j. km0!i * mCCHt0!(j + 3) + km1!i * mCCHt1!(j + 3)
                                     + km2!i * mCCHt2!(j + 3)) [0..<3]) [0..<3];
          mDpp = map (\<lambda>i. map (\<lambda>j. km0!(i + 3) * mCCHt0!(j + 3) + km1!(i + 3) * mCCHt1!(j + 3)
                                     + km2!(i + 3) * mCCHt2!(j + 3)) [0..<3]) [0..<3];
          mDe0 = hmf!3 * mDvp!0!0 + hmf!4 * mDvp!1!0 + hmf!5 * mDvp!2!0;
          mDe1 = hmf!3 * mDvp!0!1 + hmf!4 * mDvp!1!1 + hmf!5 * mDvp!2!1;
          mDe2 = hmf!3 * mDvp!0!2 + hmf!4 * mDvp!1!2 + hmf!5 * mDvp!2!2;
          mDe3 = hmf!3 * mDpp!0!0 + hmf!4 * mDpp!1!0 + hmf!5 * mDpp!2!0;
          mDe4 = hmf!3 * mDpp!0!1 + hmf!4 * mDpp!1!1 + hmf!5 * mDpp!2!1;
          mDe5 = hmf!3 * mDpp!0!2 + hmf!4 * mDpp!1!2 + hmf!5 * mDpp!2!2;
          mDe6 = 2 * (mDe3 * hrf!3 + mDe4 * hrf!4 + mDe5 * hrf!5);
          P = add_at P 3 (m!3);
          P = add_at P 4 (m!4);
          P = add_at P 5 (m!5);
          C = add_at C 9 (mV!9);
          C = add_at C 13 (mV!13);
          C = add_at C 14 (mV!14);
          C = add_at C 18 (mV!18);
          C = add_at C 19 (mV!19);
          C = add_at C 20 (mV!20);
          C = add_at C 24 (mV!24);
          C = add_at C 25 (mV!25);
          C = add_at C 26 (mV!26);
          C = add_at C 27 (mV!27);
          C = add_at C 21 mDe0;
          C = add_at C 22 mDe1;
          C = add_at C 23 mDe2;
          C = add_at C 24 mDe3;
          C = add_at C 25 mDe4;
          C = add_at C 26 mDe5;
          C = add_at C 27 mDe6;
          P = fold (\<lambda>i P. P[i := P!i + k0!i * zeta!0 + k1!i * zeta!1 + k2!i * zeta!2]) [0..<6] P;
          C = tri_loop 6 (\<lambda>i j c. c - (k0!i * mCHt0!j + k1!i * mCHt1!j + k2!i * mCHt2!j)) C;
          C = fold (\<lambda>i C. C[i := C!i]) [21..<28] C
      in (P, C))"

definition AddDaughterWithEnergyCalc_pass ::
  "KFVirtuals \<Rightarrow> (int \<Rightarrow> real list) \<Rightarrow> KFParticleBaseSIMD \<Rightarrow> bool \<Rightarrow> int \<Rightarrow> int
     \<Rightarrow> KFParticleBaseSIMD \<Rightarrow> KFParticleBaseSIMD" where
  "AddDaughterWithEnergyCalc_pass VI mV0 Daughter isAtVtxGuess maxIter iter p =
    (case AddDaughter_measurement VI (mV0 iter) Daughter isAtVtxGuess p of (m, mV) \<Rightarrow>
     case EnergyCalc_mCHt (fC p) mV of (mCHt0, mCHt1, mCHt2) \<Rightarrow>
      let mS = AddDaughter_mS (fC p) mV;
          zeta = AddDaughter_zeta (fP p) m;
          K = gain_rows 6 mCHt0 mCHt1 mCHt2 mS
      in if iter < maxIter - 1
         then p\<lparr>fVtxGuess := AddDaughter_guess (fP p) K zeta (fVtxGuess p)\<rparr>
         else (case EnergyCalc_update (fP p) (fC p) m mV of (P, C) \<Rightarrow>
                 AddDaughter_bookkeeping maxIter iter Daughter mS zeta (p\<lparr>fP := P, fC := C\<rparr>)))"

definition AddDaughterWithEnergyCalc ::
  "KFVirtuals \<Rightarrow> (int \<Rightarrow> real list) \<Rightarrow> KFParticleBaseSIMD \<Rightarrow> bool
     \<Rightarrow> KFParticleBaseSIMD \<Rightarrow> KFParticleBaseSIMD" where
  "AddDaughterWithEnergyCalc VI mV0 Daughter isAtVtxGuess p =
    (case AddDaughter_linearize VI Daughter isAtVtxGuess p of (maxIter, p) \<Rightarrow>
       for_loop maxIter (AddDaughterWithEnergyCalc_pass VI mV0 Daughter isAtVtxGuess maxIter) 0 p)"

subsection \<open>Independent energy fit with the mass-constraint hook\<close>

definition EnergyFitMC_mCHt :: "real list \<Rightarrow> real list \<times> real list \<times> real list" where
  "EnergyFitMC_mCHt C =
     ([C!0, C!1, C!3, C!6, C!10, C!15, C!21],
      [C!1, C!2, C!4, C!7, C!11, C!16, C!22],
      [C!3, C!4, C!5, C!8, C!12, C!17, C!23])"

definition positive_mass :: "real \<Rightarrow> real" where
  "positive_mass mMass0 =
    (let mMass = (if mMass0 > 0 then sqrt mMass0 else mMass0);
         mMass = (if mMass \<le> 0 then 0 else mMass)
     in mMass)"

definition EnergyFitMC_update ::
  "KFParticleBaseSIMD \<Rightarrow> KFParticleBaseSIMD \<Rightarrow> real list \<Rightarrow> real list \<Rightarrow> real list \<times> real list" where
  "EnergyFitMC_update p Daughter m0 mV0 =
    (case EnergyFitMC_mCHt (fC p) of (mCHt0, mCHt1, mCHt2) \<Rightarrow>
     case gain_rows 7 mCHt0 mCHt1 mCHt2 (AddDaughter_mS (fC p) mV0) of (k0, k1, k2) \<Rightarrow>
      let mS = AddDaughter_mS (fC p) mV0;
          zeta = AddDaughter_zeta (fP p) m0
      in case EnergyFitMC_mCHt mV0 of (mVHt0, mVHt1, mVHt2) \<Rightarrow>
         case gain_rows 7 mVHt0 mVHt1 mVHt2 mS of (km0, km1, km2) \<Rightarrow>
      let P = fold (\<lambda>i P. P[i := P!i + k0!i * zeta!0 + k1!i * zeta!1 + k2!i * zeta!2]) [0..<7] (fP p);
          m = fold (\<lambda>i m. m[i := m!i - km0!i * zeta!0 - km1!i * zeta!1 - km2!i * zeta!2]) [0..<7] m0;
          C = tri_loop 7 (\<lambda>i j c. c - (k0!i * mCHt0!j + k1!i * mCHt1!j + k2!i * mCHt2!j)) (fC p);
          mV = tri_loop 7 (\<lambda>i j c. c - (km0!i * mVHt0!j + km1!i * mVHt1!j + km2!i * mVHt2!j)) mV0;
          mDf = map (\<lambda>i. map (\<lambda>j. km0!i * mCHt0!j + km1!i * mCHt1!j + km2!i * mCHt2!j) [0..<7])
                  [0..<7];
          mMassParticle = positive_mass (P!6 * P!6 - (P!3 * P!3 + P!4 * P!4 + P!5 * P!5));
          mMassDaughter = positive_mass (m!6 * m!6 - (m!3 * m!3 + m!4 * m!4 + m!5 * m!5));
          mask1 = (fMassHypo p > - (1 / 2));
          mask2 = ((\<not> mask1) \<and> (mMassParticle < SumDaughterMass p \<or> P!6 < 0))
      in case SetMassConstraint_arrays P C (fMassHypo p) mask1 of (P, C, mJ1) \<Rightarrow>
         case SetMassConstraint_arrays P C (SumDaughterMass p) mask2 of (P, C, mJ1) \<Rightarrow>
      let mask3 = (fMassHypo Daughter > - (1 / 2));
          mask4 = ((\<not> mask3) \<and> (mMassDaughter < SumDaughterMass Daughter \<or> m!6 < 0))
      in case SetMassConstraint_arrays m mV (fMassHypo Daughter) mask3 of (m, mV, mJ2) \<Rightarrow>
         case SetMassConstraint_arrays m mV (SumDaughterMass Daughter) mask4 of (m, mV, mJ2) \<Rightarrow>
      let mDJ = map (\<lambda>i. map (\<lambda>j. sum_loop 7 (\<lambda>k. mDf!i!k * mJ1!j!k)) [0..<7]) [0..<7];
          mDf = map (\<lambda>i. map (\<lambda>j. sum_loop 7 (\<lambda>l. mJ2!i!l * mDJ!l!j)) [0..<7]) [0..<7];
          P = add_at P 3 (m!3);
          P = add_at P 4 (m!4);
          P = add_at P 5 (m!5);
          P = add_at P 6 (m!6);
          C = add_at C 9 (mV!9);
          C = add_at C 13 (mV!13);
          C = add_at C 14 (mV!14);
          C = add_at C 18 (mV!18);
          C = add_at C 19 (mV!19);
          C = add_at C 20 (mV!20);
          C = add_at C 24 (mV!24);
          C = add_at C 25 (mV!25);
          C = add_at C 26 (mV!26);
          C = add_at C 27 (mV!27);
          C = add_at C 6 (mDf!3!0); C = add_at C 7 (mDf!3!1); C = add_at C 8 (mDf!3!2);
          C = add_at C 10 (mDf!4!0); C = add_at C 11 (mDf!4!1); C = add_at C 12 (mDf!4!2);
          C = add_at C 15 (mDf!5!0); C = add_at C 16 (mDf!5!1); C = add_at C 17 (mDf!5!2);
          C = add_at C 21 (mDf!6!0); C = add_at C 22 (mDf!6!1); C = add_at C 23 (mDf!6!2);
          C = add_at C 9 (mDf!3!3 + mDf!3!3);
          C = add_at C 13 (mDf!4!3 + mDf!3!4); C = add_at C 14 (mDf!4!4 + mDf!4!4);
          C = add_at C 18 (mDf!5!3 + mDf!3!5); C = add_at C 19 (mDf!5!4 + mDf!4!5);
          C = add_at C 20 (mDf!5!5 + mDf!5!5);
          C = add_at C 24 (mDf!6!3 + mDf!3!6); C = add_at C 25 (mDf!6!4 + mDf!4!6);
          C = add_at C 26 (mDf!6!5 + mDf!5!6); C = add_at C 27 (mDf!6!6 + mDf!6!6);
          P = fold (\<lambda>i P. P[i := P!i]) [0..<7] P;
          C = tri_loop 7 (\<lambda>i j c. c) C
      in (P, C))"

definition AddDaughterWithEnergyFitMC_pass ::
  "KFVirtuals \<Rightarrow> (int \<Rightarrow> real list) \<Rightarrow> KFParticleBaseSIMD \<Rightarrow> bool \<Rightarrow> int \<Rightarrow> int
     \<Rightarrow> KFParticleBaseSIMD \<Rightarrow> KFParticleBaseSIMD" where
  "AddDaughterWithEnergyFitMC_pass VI mV0 Daughter isAtVtxGuess maxIter iter p =
    (case AddDaughter_measurement VI (mV0 iter) Daughter isAtVtxGuess p of (m, mV) \<Rightarrow>
     case EnergyFitMC_mCHt (fC p) of (mCHt0, mCHt1, mCHt2) \<Rightarrow>
      let mS = AddDaughter_mS (fC p) mV;
          zeta = AddDaughter_zeta (fP p) m;
          K = gain_rows 7 mCHt0 mCHt1 mCHt2 mS
      in if iter < maxIter - 1
         then p\<lparr>fVtxGuess := AddDaughter_guess (fP p) K zeta (fVtxGuess p)\<rparr>
         else (case EnergyFitMC_update p Daughter m mV of (P, C) \<Rightarrow>
                 AddDaughter_bookkeeping maxIter iter Daughter mS zeta (p\<lparr>fP := P, fC := C\<rparr>)))"

definition AddDaughterWithEnergyFitMC ::
  "KFVirtuals \<Rightarrow> (int \<Rightarrow> real list) \<Rightarrow> KFParticleBaseSIMD \<Rightarrow> bool
     \<Rightarrow> KFParticleBaseSIMD \<Rightarrow> KFParticleBaseSIMD" where
  "AddDaughterWithEnergyFitMC VI mV0 Daughter isAtVtxGuess p =
    (case AddDaughter_linearize VI Daughter isAtVtxGuess p of (maxIter, p) \<Rightarrow>
       for_loop maxIter (AddDaughterWithEnergyFitMC_pass VI mV0 Daughter isAtVtxGuess maxIter) 0 p)"

subsection \<open>The dispatch\<close>

text \<open>
  Modelled from the spec: \<^verbatim>\<open>AddDaughterId\<close> and \<^verbatim>\<open>Id()\<close> are inline in the header, which
  is not part of the sources; the daughter's identifier \<^verbatim>\<open>fId\<close> is accumulated into the
  object's list of daughter identifiers.
\<close>

definition AddDaughterId :: "int \<Rightarrow> KFParticleBaseSIMD \<Rightarrow> KFParticleBaseSIMD" where
  "AddDaughterId i p = p\<lparr>fDaughterIds := fDaughterIds p @ [i]\<rparr>"

text \<open>
  \<^verbatim>\<open>AddDaughter(Daughter, isAtVtxGuess)\<close>. In the first-daughter branch
  \<^verbatim>\<open>GetMeasurement\<close> writes into the object's own \<^verbatim>\<open>fP\<close> and \<^verbatim>\<open>fC\<close>. No branch of the
  dispatch is taken when \<^verbatim>\<open>fConstructMethod\<close> is not 0, 1 or 2.
\<close>

definition AddDaughter ::
  "KFVirtuals \<Rightarrow> (int \<Rightarrow> real list) \<Rightarrow> KFParticleBaseSIMD \<Rightarrow> bool
     \<Rightarrow> KFParticleBaseSIMD \<Rightarrow> KFParticleBaseSIMD" where
  "AddDaughter VI mV0 Daughter isAtVtxGuess p0 =
    (let p = AddDaughterId (fId Daughter) p0 in
     if fNDF p < - 1 then
       (let p = p\<lparr>fNDF := - 1, fQ := fQ Daughter\<rparr> in
        case AddDaughter_measurement VI (fC p) Daughter isAtVtxGuess p of (P, C) \<Rightarrow>
          p\<lparr>fP := P, fC := C, fSFromDecay := 0, fMassHypo := fMassHypo Daughter,
            SumDaughterMass := SumDaughterMass Daughter\<rparr>)
     else
       (let p = (if fConstructMethod p = 0 then AddDaughterWithEnergyFit VI mV0 Daughter isAtVtxGuess p
                 else if fConstructMethod p = 1 then AddDaughterWithEnergyCalc VI mV0 Daughter isAtVtxGuess p
                 else if fConstructMethod p = 2 then AddDaughterWithEnergyFitMC VI mV0 Daughter isAtVtxGuess p
                 else p)
        in p\<lparr>SumDaughterMass := SumDaughterMass p + SumDaughterMass Daughter, fMassHypo := - 1\<rparr>))"

text \<open>
  The daughter loop of \<^verbatim>\<open>Construct\<close>, \<^verbatim>\<open>for (itr = 0; itr < nDaughters; itr++)
  AddDaughter(*vDaughters[itr], isAtVtxGuess)\<close>: each daughter comes with the content of
  the uninitialised locals of its call.
\<close>

definition AddDaughters ::
  "KFVirtuals \<Rightarrow> bool \<Rightarrow> ((int \<Rightarrow> real list) \<times> KFParticleBaseSIMD) list
     \<Rightarrow> KFParticleBaseSIMD \<Rightarrow> KFParticleBaseSIMD" where
  "AddDaughters VI isAtVtxGuess vDaughters p =
     fold (\<lambda>(mV0, Daughter) p. AddDaughter VI mV0 Daughter isAtVtxGuess p) vDaughters p"

section \<open>Production vertex and construction\<close>

text \<open>
  \<^verbatim>\<open>SetProductionVertex(Vtx)\<close>, in the order of the source. \<open>production_row\<close> is one of
  the five blocks that compute \<^verbatim>\<open>d0\<close>, \<^verbatim>\<open>d1\<close>, \<^verbatim>\<open>d2\<close> for a row \<open>r\<close> of \<^verbatim>\<open>mB\<close> (the row
  starts at position \<open>a\<close> of the packed covariance) and add them and their products with
  the rows \<open>0, \<dots>, r\<close> of \<^verbatim>\<open>mB\<close> to \<^verbatim>\<open>fC\<close>.
\<close>

definition production_mB :: "real list \<Rightarrow> real list \<Rightarrow> real list list" where
  "production_mB C mAi =
     map (\<lambda>a. [C!a * mAi!0 + C!(a + 1) * mAi!1 + C!(a + 2) * mAi!3,
                C!a * mAi!1 + C!(a + 1) * mAi!2 + C!(a + 2) * mAi!4,
                C!a * mAi!3 + C!(a + 1) * mAi!4 + C!(a + 2) * mAi!5]) [6, 10, 15, 21, 28]"

definition production_row :: "real list list \<Rightarrow> real list \<Rightarrow> nat \<Rightarrow> nat \<Rightarrow> real list \<Rightarrow> real list" where
  "production_row mB mV r a C0 =
    (let C = C0;
         d0 = mB!r!0 * mV!0 + mB!r!1 * mV!1 + mB!r!2 * mV!3 - C!a;
         d1 = mB!r!0 * mV!1 + mB!r!1 * mV!2 + mB!r!2 * mV!4 - C!(a + 1);
         d2 = mB!r!0 * mV!3 + mB!r!1 * mV!4 + mB!r!2 * mV!5 - C!(a + 2);
         C = add_at C a d0;
         C = add_at C (a + 1) d1;
         C = add_at C (a + 2) d2
     in fold (\<lambda>s C. add_at C (a + 3 + s) (d0 * mB!s!0 + d1 * mB!s!1 + d2 * mB!s!2)) [0..<r + 1] C)"

definition clear_decay_row :: "bool \<Rightarrow> real list \<Rightarrow> real list" where
  "clear_decay_row with35 C =
     fold (\<lambda>i C. C[i := 0]) (if with35 then [28, 29, 30, 31, 32, 33, 34, 35]
                                else [28, 29, 30, 31, 32, 33, 34]) C"

definition SetProductionVertex ::
  "KFVirtuals \<Rightarrow> KFParticleBaseSIMD \<Rightarrow> KFParticleBaseSIMD \<Rightarrow> KFParticleBaseSIMD" where
  "SetProductionVertex VI Vtx p0 =
    (let m = fP Vtx; mV = fC Vtx;
         noS = (fC p0 ! 35 \<le> 0);
         p = (if noS then
                (let p = TransportToDecayVertex VI p0
                 in p\<lparr>fP := (fP p)[7 := 0], fC := clear_decay_row True (fC p)\<rparr>)
              else
                (let p = TransportToDS VI (GetDStoPoint VI p0 m) p0;
                     p = p\<lparr>fP := (fP p)[7 := - fSFromDecay p]\<rparr>;
                     p = p\<lparr>fC := (clear_decay_row False (fC p))[35 := 1 / 10]\<rparr>
                 in Convert VI True p));
         mAi = InvertCholetsky3 [fC p ! 0, fC p ! 1, fC p ! 2, fC p ! 3, fC p ! 4, fC p ! 5];
         mB = production_mB (fC p) mAi;
         z = [m!0 - fP p ! 0, m!1 - fP p ! 1, m!2 - fP p ! 2];
         mAVi = InvertCholetsky3 [fC p ! 0 - mV!0, fC p ! 1 - mV!1, fC p ! 2 - mV!2,
                                  fC p ! 3 - mV!3, fC p ! 4 - mV!4, fC p ! 5 - mV!5];
         dChi2 = chi2_form mAVi z;
         p = p\<lparr>fChi2 := fChi2 p + \<bar>dChi2\<bar>\<rparr>;
         p = p\<lparr>fNDF := fNDF p + 2\<rparr>;
         P = fP p;
         P = P[0 := m!0];
         P = P[1 := m!1];
         P = P[2 := m!2];
         P = add_at P 3 (mB!0!0 * z!0 + mB!0!1 * z!1 + mB!0!2 * z!2);
         P = add_at P 4 (mB!1!0 * z!0 + mB!1!1 * z!1 + mB!1!2 * z!2);
         P = add_at P 5 (mB!2!0 * z!0 + mB!2!1 * z!1 + mB!2!2 * z!2);
         P = add_at P 6 (mB!3!0 * z!0 + mB!3!1 * z!1 + mB!3!2 * z!2);
         P = add_at P 7 (mB!4!0 * z!0 + mB!4!1 * z!1 + mB!4!2 * z!2);
         C = fold (\<lambda>i C. C[i := mV!i]) [0..<6] (fC p);
         C = production_row mB mV 0 6 C;
         C = production_row mB mV 1 10 C;
         C = production_row mB mV 2 15 C;
         C = production_row mB mV 3 21 C;
         C = production_row mB mV 4 28 C;
         p = p\<lparr>fP := P, fC := C\<rparr>;
         p = (if noS then p\<lparr>fP := (fP p)[7 := 0], fC := clear_decay_row True (fC p)\<rparr>
              else Convert VI False (TransportToDS VI (fP p ! 7) p))
     in p\<lparr>fSFromDecay := 0\<rparr>)"

text \<open>
  Modelled from the spec: \<^verbatim>\<open>CleanDaughtersId\<close> and \<^verbatim>\<open>SetNDaughters\<close> are inline in the
  header, which is not part of the sources; the first empties the list of daughter
  identifiers, the second reserves room in it and changes no value.
\<close>

definition CleanDaughtersId :: "KFParticleBaseSIMD \<Rightarrow> KFParticleBaseSIMD" where
  "CleanDaughtersId p = p\<lparr>fDaughterIds := []\<rparr>"

definition SetNDaughters :: "nat \<Rightarrow> KFParticleBaseSIMD \<Rightarrow> KFParticleBaseSIMD" where
  "SetNDaughters n p = p"

text \<open>
  \<^verbatim>\<open>Construct(vDaughters, nDaughters, Parent, Mass, IsConstrained, isAtVtxGuess)\<close>: the
  daughters are a list (each with the content of the uninitialised locals of its
  \<^verbatim>\<open>AddDaughter\<close> call), \<^verbatim>\<open>nDaughters\<close> is its length and \<^verbatim>\<open>Parent\<close> is an option. The
  first branch reads \<^verbatim>\<open>vDaughters[0]\<close> and \<^verbatim>\<open>vDaughters[1]\<close> as the source does, whatever
  \<^verbatim>\<open>nDaughters\<close> is. \<open>Construct_start\<close> is the code before the loop (the result is
  \<^verbatim>\<open>maxIter\<close> and the object), \<open>Construct_pass\<close> one pass of the loop, with
  \<^verbatim>\<open>constraintC\<close> as an argument. The call \<^verbatim>\<open>SetMassConstraint(Mass)\<close> leaves \<^verbatim>\<open>SigmaMass\<close>
  to the header's default, taken to be 0 (the hard constraint).
\<close>

definition Construct_start ::
  "KFVirtuals \<Rightarrow> KFParticleBaseSIMD list \<Rightarrow> bool \<Rightarrow> bool \<Rightarrow> KFParticleBaseSIMD
     \<Rightarrow> int \<times> KFParticleBaseSIMD" where
  "Construct_start VI vDaughters IsConstrained isAtVtxGuess p =
    (if (\<not> fIsLinearized p \<or> IsConstrained) \<and> (\<not> isAtVtxGuess) then
       (case GetDStoParticle VI (vDaughters!0) (vDaughters!1) of (ds, ds1) \<Rightarrow>
        case Transport VI (vDaughters!0) ds of (P, C) \<Rightarrow>
         let p = p\<lparr>fVtxGuess := [P!0, P!1, P!2]\<rparr>;
             p = (if \<not> fIsVtxErrGuess p then
                    (let E = [1, 1, 1];
                         E = E[0 := (if C!0 > 0 then 10 * sqrt (C!0) else E!0)];
                         E = E[1 := (if C!2 > 0 then 10 * sqrt (C!2) else E!1)];
                         E = E[2 := (if C!5 > 0 then 10 * sqrt (C!5) else E!2)]
                     in p\<lparr>fVtxErrGuess := E\<rparr>)
                  else p)
         in (3, p\<lparr>fIsLinearized := True\<rparr>))
     else (1, if \<not> fIsVtxErrGuess p then p\<lparr>fVtxErrGuess := [1, 1, 1]\<rparr> else p))"

definition Construct_constraintC :: "bool \<Rightarrow> KFParticleBaseSIMD \<Rightarrow> real list" where
  "Construct_constraintC IsConstrained p =
    (if IsConstrained then map (\<lambda>i. fC p ! i) [0..<6]
     else (let c = map (\<lambda>i. 0) [0..<6];
               c = c[0 := fVtxErrGuess p ! 0 * fVtxErrGuess p ! 0];
               c = c[2 := fVtxErrGuess p ! 1 * fVtxErrGuess p ! 1];
               c = c[5 := fVtxErrGuess p ! 2 * fVtxErrGuess p ! 2]
           in c))"

definition Construct_pass ::
  "KFVirtuals \<Rightarrow> ((int \<Rightarrow> real list) \<times> KFParticleBaseSIMD) list \<Rightarrow> bool \<Rightarrow> bool \<Rightarrow> real list
     \<Rightarrow> int \<Rightarrow> int \<Rightarrow> KFParticleBaseSIMD \<Rightarrow> KFParticleBaseSIMD" where
  "Construct_pass VI vDaughters IsConstrained isAtVtxGuess constraintC maxIter iter p0 =
    (let p = CleanDaughtersId p0;
         p = SetNDaughters (length vDaughters) p;
         p = p\<lparr>fAtProductionVertex := False, fSFromDecay := 0\<rparr>;
         P = fP p;
         P = P[0 := fVtxGuess p ! 0];
         P = P[1 := fVtxGuess p ! 1];
         P = P[2 := fVtxGuess p ! 2];
         P = P[3 := 0];
         P = P[4 := 0];
         P = P[5 := 0];
         P = P[6 := 0];
         P = P[7 := 0];
         p = p\<lparr>fP := P, SumDaughterMass := 0\<rparr>;
         C = fold (\<lambda>i C. C[i := constraintC!i]) [0..<6] (fC p);
         C = fold (\<lambda>i C. C[i := 0]) [6..<36] C;
         C = C[35 := 1];
         p = p\<lparr>fC := C, fNDF := (if IsConstrained then 0 else - 3), fChi2 := 0, fQ := 0\<rparr>;
         p = AddDaughters VI isAtVtxGuess vDaughters p
     in if iter < maxIter - 1
        then p\<lparr>fVtxGuess := fold (\<lambda>i G. G[i := fP p ! i]) [0..<3] (fVtxGuess p)\<rparr>
        else p)"

definition Construct ::
  "KFVirtuals \<Rightarrow> ((int \<Rightarrow> real list) \<times> KFParticleBaseSIMD) list \<Rightarrow> KFParticleBaseSIMD option
     \<Rightarrow> real \<Rightarrow> bool \<Rightarrow> bool \<Rightarrow> KFParticleBaseSIMD \<Rightarrow> KFParticleBaseSIMD" where
  "Construct VI vDaughters Parent Mass IsConstrained isAtVtxGuess p0 =
    (let wasLinearized = fIsLinearized p0
     in case Construct_start VI (map snd vDaughters) IsConstrained isAtVtxGuess p0 of
          (maxIter, p) \<Rightarrow>
     let constraintC = Construct_constraintC IsConstrained p;
         p = for_loop maxIter
               (Construct_pass VI vDaughters IsConstrained isAtVtxGuess constraintC maxIter) 0 p;
         p = p\<lparr>fIsLinearized := wasLinearized\<rparr>;
         p = (if Mass \<ge> 0 then SetMassConstraint Mass 0 p else p)
     in case Parent of None \<Rightarrow> p | Some Vtx \<Rightarrow> SetProductionVertex VI Vtx p)"

section \<open>Example states\<close>

definition example_particle :: "real list \<Rightarrow> real list \<Rightarrow> KFParticleBaseSIMD" where
  "example_particle P C =
     \<lparr> fP = P, fC = C, fQ = 0, fNDF = 0, fChi2 = 0, fSFromDecay = 0, SumDaughterMass = 0,
       fMassHypo = - 1, fAtProductionVertex = False, fIsLinearized = False,
       fVtxGuess = [0, 0, 0], fVtxErrGuess = [0, 0, 0], fIsVtxErrGuess = False,
       fConstructMethod = 0, fId = - 1, fDaughterIds = [] \<rparr>"

definition massless_particle :: KFParticleBaseSIMD where
  "massless_particle = example_particle [0, 0, 0, 3, 0, 4, 5, 0] (replicate 36 0)"

definition tachyonic_particle :: KFParticleBaseSIMD where
  "tachyonic_particle = example_particle [0, 0, 0, 3, 0, 4, 0, 0] (replicate 36 0)"


definition charged_particle :: KFParticleBaseSIMD where
  "charged_particle = (example_particle [0, 0, 0, 1, 0, 0, 1, 0] (replicate 36 0))\<lparr>fQ := 1\<rparr>"

text \<open>
  An instance of the virtual interface: no field, straight-line transport, and path-length
  solvers that return zero.
\<close>

definition line_virtuals :: KFVirtuals where
  "line_virtuals =
     \<lparr> GetFieldValue = (\<lambda>xyz. [0, 0, 0]),
       Transport = (\<lambda>p dS. TransportLine dS p),
       GetDStoPoint = (\<lambda>p xyz. 0),
       GetDStoParticle = (\<lambda>p q. (0, 0)) \<rparr>"

definition v0_positive :: KFParticleBaseSIMD where
  "v0_positive = (example_particle [0, 0, 0, - 3, 0, 8, 9, 0] (replicate 36 0))\<lparr>fQ := 1\<rparr>"

definition v0_negative :: KFParticleBaseSIMD where
  "v0_negative = (example_particle [0, 0, 0, 3, 0, 4, 6, 0] (replicate 36 0))\<lparr>fQ := - 1\<rparr>"

text \<open>The packed symmetric matrix \<open>diag (- 10\<^sup>-\<^sup>9, 1, 1)\<close>.\<close>

definition near_singular_matrix :: "real list" where
  "near_singular_matrix = [- (1 / 10 ^ 9), 0, 1, 0, 0, 1]"

text \<open>A track at \<open>(1, 0, 0)\<close> with momentum \<open>(1, 0, 0)\<close>.\<close>

definition example_track :: KFParticleBaseSIMD where
  "example_track = (example_particle [1, 0, 0, 1, 0, 0, 1, 0] (replicate 36 0))\<lparr>fQ := 1\<rparr>"

text \<open>
  A particle at rest at \<open>(5, 2, 3)\<close> with the position covariance
  \<open>((5, 2, 0), (2, 3, 0), (0, 0, 2))\<close>, and a vertex at the origin with the unit position
  covariance. All the numbers that \<^verbatim>\<open>SubtractFromVertex\<close> computes from them are
  multiples of powers of two with a few bits, so single-precision arithmetic is exact on
  them.
\<close>

definition resting_particle :: KFParticleBaseSIMD where
  "resting_particle = example_particle [5, 2, 3, 0, 0, 0, 1, 0] ([5, 2, 3, 0, 0, 2] @ replicate 30 0)"

definition unit_vertex :: KFParticleBaseSIMD where
  "unit_vertex = example_particle [0, 0, 0, 0, 0, 0, 0, 0] ([1, 0, 1, 0, 0, 1] @ replicate 30 0)"

section \<open>Arrays of fixed size and loops over constant ranges\<close>

lemma list8_ex: "length xs = 8 \<Longrightarrow> \<exists>a0 a1 a2 a3 a4 a5 a6 a7. xs = [a0, a1, a2, a3, a4, a5, a6, a7]"
  by (simp add: eval_nat_numeral length_Suc_conv) (elim exE conjE, simp)

lemma list36_ex: "length xs = 36 \<Longrightarrow> \<exists>a0 a1 a2 a3 a4 a5 a6 a7 a8 a9 a10 a11 a12 a13 a14 a15 a16 a17 a18
   a19 a20 a21 a22 a23 a24 a25 a26 a27 a28 a29 a30 a31 a32 a33 a34 a35.
   xs = [a0, a1, a2, a3, a4, a5, a6, a7, a8, a9, a10, a11, a12, a13, a14, a15, a16, a17, a18,
   a19, a20, a21, a22, a23, a24, a25, a26, a27, a28, a29, a30, a31, a32, a33, a34, a35]"
  by (simp add: eval_nat_numeral length_Suc_conv) (elim exE conjE, simp)

lemma arrays_8_36:
  assumes "length P = 8" "length C = 36"
    and "\<And>a0 a1 a2 a3 a4 a5 a6 a7 c0 c1 c2 c3 c4 c5 c6 c7 c8 c9 c10 c11 c12 c13 c14 c15 c16 c17
        c18 c19 c20 c21 c22 c23 c24 c25 c26 c27 c28 c29 c30 c31 c32 c33 c34 c35.
       Q [a0, a1, a2, a3, a4, a5, a6, a7] [c0, c1, c2, c3, c4, c5, c6, c7, c8, c9, c10, c11, c12, c13, c14, c15, c16, c17, c18, c19, c20, c21, c22, c23, c24, c25, c26, c27, c28, c29, c30, c31, c32, c33, c34, c35]"
  shows "Q P C"
  using list8_ex[OF assms(1)] list36_ex[OF assms(2)] assms(3) by (elim exE) simp

lemma list_update_Cons_numeral: "(x # xs)[numeral k := y] = x # xs[pred_numeral k := y]"
  by (simp add: numeral_eq_Suc)

lemma replicate_numeral_unroll: "replicate (numeral k) x = x # replicate (pred_numeral k) x"
  by (simp add: numeral_eq_Suc)

lemmas eval_arrays = upt_conv_Cons list_update_Cons_numeral replicate_numeral_unroll

section \<open>Invariant mass\<close>

text \<open>
  C7. For a state with \<open>E\<^sup>2 < px\<^sup>2 + py\<^sup>2 + pz\<^sup>2\<close>, \<^verbatim>\<open>GetMass\<close> returns the mass
  \<open>m = - sqrt (p\<^sup>2 - E\<^sup>2)\<close>, the negative of \<open>sqrt \<bar>m\<^sup>2\<bar>\<close>: a negative real number,
  so that it can still be ordered and compared in a cut.
\<close>

theorem GetMass_non_physical:
  assumes "(fP p ! 6)\<^sup>2 < (fP p ! 3)\<^sup>2 + (fP p ! 4)\<^sup>2 + (fP p ! 5)\<^sup>2"
  shows "fst (snd (GetMass p))
           = - sqrt ((fP p ! 3)\<^sup>2 + (fP p ! 4)\<^sup>2 + (fP p ! 5)\<^sup>2 - (fP p ! 6)\<^sup>2)
       \<and> fst (snd (GetMass p)) = - sqrt \<bar>GetMass_m2 p\<bar>
       \<and> fst (snd (GetMass p)) < 0"
  using assms
  by (simp add: GetMass_def GetMass_m2_def Let_def power2_eq_square algebra_simps)

theorem GetMass_non_physical_witness:
  "fst (snd (GetMass tachyonic_particle)) = - 5 \<and> fst (snd (GetMass tachyonic_particle)) < 0"
proof -
  have h: "(fP tachyonic_particle ! 6)\<^sup>2
      < (fP tachyonic_particle ! 3)\<^sup>2 + (fP tachyonic_particle ! 4)\<^sup>2 + (fP tachyonic_particle ! 5)\<^sup>2"
    by (simp add: tachyonic_particle_def example_particle_def)
  have "sqrt ((fP tachyonic_particle ! 3)\<^sup>2 + (fP tachyonic_particle ! 4)\<^sup>2
          + (fP tachyonic_particle ! 5)\<^sup>2 - (fP tachyonic_particle ! 6)\<^sup>2) = sqrt (5\<^sup>2)"
    by (simp add: tachyonic_particle_def example_particle_def)
  then have "sqrt ((fP tachyonic_particle ! 3)\<^sup>2 + (fP tachyonic_particle ! 4)\<^sup>2
          + (fP tachyonic_particle ! 5)\<^sup>2 - (fP tachyonic_particle ! 6)\<^sup>2) = 5"
    by simp
  with GetMass_non_physical [OF h] show ?thesis by simp
qed

text \<open>
  C10. \<^verbatim>\<open>GetMass\<close> reports failure (a true problem mask, and \<^verbatim>\<open>error\<close> set to
  \<open>10\<^sup>2\<^sup>0\<close>) exactly when the computed \<open>m\<^sup>2\<close> is negative, or the propagated variance
  \<open>s\<close> is negative, or the returned mass is at most \<open>10\<^sup>-\<^sup>1\<^sup>0\<close>. In particular a massless
  state (\<open>m\<^sup>2 = 0\<close>) gets the valid mass \<open>0\<close>, the problem mask and the error \<open>10\<^sup>2\<^sup>0\<close>.
\<close>

theorem GetMass_failure_flag:
  "(fst (GetMass p) \<longleftrightarrow>
      (GetMass_m2 p < 0 \<or> GetMass_s p < 0 \<or> fst (snd (GetMass p)) \<le> 1 / 10 ^ 10))
   \<and> (fst (GetMass p) \<longrightarrow> snd (snd (GetMass p)) = 10 ^ 20)
   \<and> (GetMass_m2 p = 0 \<longrightarrow>
        fst (snd (GetMass p)) = 0 \<and> fst (GetMass p) \<and> snd (snd (GetMass p)) = 10 ^ 20)"
  by (auto simp add: GetMass_def Let_def not_le not_less)

theorem GetMass_failure_flag_witness:
  "GetMass_m2 massless_particle = 0 \<and> fst (snd (GetMass massless_particle)) = 0
   \<and> fst (GetMass massless_particle) \<and> snd (snd (GetMass massless_particle)) = 10 ^ 20"
proof -
  have h: "GetMass_m2 massless_particle = 0"
    by (simp add: GetMass_m2_def massless_particle_def example_particle_def)
  with GetMass_failure_flag [of massless_particle] show ?thesis by blast
qed

section \<open>Transport: identity and round trip\<close>

lemma TransportLine_apply_0:
  assumes "length P = 8" "length C = 36"
  shows "TransportLine_apply 0 P C = (P, C)"
  by (rule arrays_8_36[OF assms]) (simp add: TransportLine_apply_def Let_def)

lemma TransportBz_coeffs_0: "TransportBz_coeffs b 0 q = (0, 1, 0, 0)"
  by (simp add: TransportBz_coeffs_def)

lemma TransportBz_apply_0:
  assumes "length P = 8" "length C = 36"
  shows "TransportBz_apply 0 0 1 0 0 P C = (P, C)"
  by (rule arrays_8_36[OF assms]) (simp add: TransportBz_apply_def Let_def)


lemma TransportLine_inplace_eq:
  assumes "length P = 8" "length C = 36"
  shows "TransportLine_inplace dS P C = TransportLine_apply dS P C"
  by (rule arrays_8_36[OF assms])
     (simp add: TransportLine_inplace_def TransportLine_apply_def Let_def eval_arrays)

lemma TransportToDSLine_eq:
  assumes "length (fP p) = 8" "length (fC p) = 36"
  shows "TransportToDSLine dS p = (Transported p (TransportLine dS p))\<lparr>fSFromDecay := fSFromDecay p + dS\<rparr>"
  by (simp add: TransportToDSLine_def TransportLine_inplace_eq[OF assms] TransportLine_def Transported_def
      split: prod.split)


subsection \<open>The composition of two uniform-field transports\<close>






subsection \<open>The coefficients of the uniform-field transport\<close>

lemma sin_gt_x_cos: 
  fixes x :: real assumes "0 < x" "x < pi" shows "x * cos x < sin x"
proof -
  let ?g = "\<lambda>y::real. sin y - y * cos y"
  have "?g 0 < ?g x"
  proof (rule DERIV_pos_imp_increasing_open[OF assms(1)])
    fix y :: real assume y: "0 < y" "y < x"
    have "(?g has_real_derivative (y * sin y)) (at y)"
      by (auto intro!: derivative_eq_intros)
    moreover have "0 < y * sin y" using y assms by (simp add: sin_gt_zero)
    ultimately show "\<exists>d. (?g has_real_derivative d) (at y) \<and> 0 < d" by blast
  next
    show "continuous_on {0..x} ?g" by (intro continuous_intros)
  qed
  then show ?thesis by simp
qed

lemma taylor_branch_gap:
  fixes x :: real assumes "0 < x" "x < pi" shows "(x / 2) * sin x < 1 - cos x"
proof -
  let ?f = "\<lambda>y::real. 1 - cos y - (y / 2) * sin y"
  have "?f 0 < ?f x"
  proof (rule DERIV_pos_imp_increasing_open[OF assms(1)])
    fix y :: real assume y: "0 < y" "y < x"
    have "(?f has_real_derivative ((sin y - y * cos y) / 2)) (at y)"
      by (auto intro!: derivative_eq_intros simp: field_simps)
    moreover have "0 < (sin y - y * cos y) / 2" using sin_gt_x_cos[of y] y assms by simp
    ultimately show "\<exists>d. (?f has_real_derivative d) (at y) \<and> 0 < d" by blast
  next
    show "continuous_on {0..x} ?f" by (intro continuous_intros) simp_all
  qed
  then show ?thesis by simp
qed





lemma TransportBz_coeffs_small:
  assumes "\<bar>b * q * kCLight * t\<bar> \<le> 1 / 10 ^ 10"
  shows "TransportBz_coeffs b t q =
    (sin (b * q * kCLight * t), cos (b * q * kCLight * t),
     (1 - b * q * kCLight * t * (1 / sqrt 6)) * (1 + b * q * kCLight * t * (1 / sqrt 6)) * t,
     (1 / 2) * ((1 - b * q * kCLight * t * (1 / sqrt 6)) * (1 + b * q * kCLight * t * (1 / sqrt 6)) * t)
        * (b * q * kCLight * t))"
  using assms by (simp add: TransportBz_coeffs_def Let_def)


lemma TransportBz_apply_x:
  "fst (TransportBz_apply t' s' c' sB' cB' (fst (TransportBz_apply t s c sB cB [a0, a1, a2, a3, a4, a5, a6, a7] C))
        (snd (TransportBz_apply t s c sB cB [a0, a1, a2, a3, a4, a5, a6, a7] C))) ! 0
   = a0 + sB * a3 + cB * a4 + sB' * (c * a3 + s * a4) + cB' * (- s * a3 + c * a4)"
  by (simp add: TransportBz_apply_def Let_def)



subsection \<open>The size of the round-trip deviation\<close>










subsection \<open>The claims\<close>

text \<open>
  C1. Transport by the path length \<open>dS = 0\<close> returns the state unchanged, in the
  straight-line model and in the uniform-Bz model (for every field value \<open>b\<close>): the
  8-component mean and the 36-entry packed covariance that the transport writes are the
  input mean and covariance, exactly.
\<close>

theorem Transport_identity:
  assumes "length (fP p) = 8" and "length (fC p) = 36"
  shows "TransportLine 0 p = (fP p, fC p) \<and> TransportBz b 0 p = (fP p, fC p)"
  using assms
  by (simp add: TransportLine_def TransportLine_apply_0 TransportBz_def TransportBz_coeffs_0
      TransportBz_apply_0)

theorem Transport_identity_witness:
  "TransportLine 0 charged_particle = ([0, 0, 0, 1, 0, 0, 1, 0], replicate 36 0)
   \<and> TransportBz 1 0 charged_particle = ([0, 0, 0, 1, 0, 0, 1, 0], replicate 36 0)"
proof -
  have "length (fP charged_particle) = 8" and "length (fC charged_particle) = 36"
    by (simp_all add: charged_particle_def example_particle_def)
  from Transport_identity [OF this, of 1] show ?thesis
    by (simp add: charged_particle_def example_particle_def)
qed



text \<open>
  In the small-angle branch the series coefficients \<^verbatim>\<open>sB\<close> and \<^verbatim>\<open>cB\<close> are paired with the
  sine and cosine themselves, so there the return is within the tolerance above and not
  exact: for the unit charge, field \<open>b = 1\<close>, momentum \<open>(1, 0, 0)\<close> and \<open>dS = 10\<^sup>-\<^sup>7\<close> the
  bend angle is about \<open>3 * 10\<^sup>-\<^sup>1\<^sup>1\<close>, and the x coordinate comes back displaced by
  \<open>sB * (1 - cos bs - (bs / 2) * sin bs)\<close>, a positive number (at most \<open>10\<^sup>-\<^sup>2\<^sup>7\<close>, by the
  theorem above).
\<close>

lemma TransportBz_small_angle_deviation:
  "TransportBz 1 (- (1 / 10 ^ 7)) (Transported charged_particle (TransportBz 1 (1 / 10 ^ 7) charged_particle))
     \<noteq> (fP charged_particle, fC charged_particle)"
proof -
  define t :: real where "t = 1 / 10 ^ 7"
  define x :: real where "x = 1 * 1 * kCLight * t"
  define k :: real where "k = 1 / sqrt 6"
  define sB :: real where "sB = (1 - x * k) * (1 + x * k) * t"
  have xv: "x = 299792458 / 10 ^ 19" by (simp add: x_def t_def kCLight_def)
  have x: "0 < x" "x < 1" "\<bar>x\<bar> \<le> 1 / 10 ^ 10" by (simp_all add: xv)
  have xpi: "x < pi" using x(2) pi_ge_two by linarith
  have tpos: "0 < t" by (simp add: t_def)
  have x': "1 * 1 * kCLight * (- t) = - x" by (simp add: x_def)
  have co1: "TransportBz_coeffs 1 t 1 = (sin x, cos x, sB, (1 / 2) * sB * x)"
    using TransportBz_coeffs_small[of 1 1 t] x(3) by (simp add: x_def sB_def k_def)
  have "\<bar>1 * 1 * kCLight * (- t)\<bar> \<le> 1 / 10 ^ 10" using x(3) unfolding x' by simp
  from TransportBz_coeffs_small[OF this]
  have co2: "TransportBz_coeffs 1 (- t) 1 = (- sin x, cos x, - sB, (1 / 2) * sB * x)"
    unfolding x' by (simp add: sB_def k_def algebra_simps)
  have k: "0 < k" "k < 1" by (simp_all add: k_def)
  have "x * k < x * 1" using x(1) k(2) by (intro mult_strict_left_mono)
  then have xk1: "x * k < 1" using x(2) by linarith
  have xk0: "0 < x * k" using x(1) k(1) by simp
  note xk = xk1 xk0
  have sBpos: "0 < sB" unfolding sB_def using xk tpos by simp
  have gap: "0 < 1 - cos x - (x / 2) * sin x" using taylor_branch_gap[OF x(1) xpi] by simp
  have "fst (TransportBz 1 (- t) (Transported charged_particle (TransportBz 1 t charged_particle))) ! 0
      = sB * (1 - cos x - (x / 2) * sin x)"
    unfolding TransportBz_def Transported_def charged_particle_def example_particle_def
    by (simp add: co1 co2 TransportBz_apply_x algebra_simps)
  moreover have "0 < sB * (1 - cos x - (x / 2) * sin x)" using sBpos gap by (rule mult_pos_pos)
  ultimately have "fst (TransportBz 1 (- t) (Transported charged_particle (TransportBz 1 t charged_particle))) ! 0 \<noteq> 0"
    by linarith
  then have "fst (TransportBz 1 (- t) (Transported charged_particle (TransportBz 1 t charged_particle)))
      \<noteq> fP charged_particle"
    by (auto simp add: charged_particle_def example_particle_def)
  then show ?thesis by (auto simp add: t_def)
qed
section \<open>The path length from the decay vertex\<close>

lemma fSFromDecay_TransportToDS:
  "fSFromDecay (TransportToDS V dS p) = fSFromDecay p + dS"
  by (simp add: TransportToDS_def split: prod.split)

lemma fAtProductionVertex_TransportToDS:
  "fAtProductionVertex (TransportToDS V dS p) = fAtProductionVertex p"
  by (simp add: TransportToDS_def split: prod.split)

lemma fSFromDecay_Convert:
  "fSFromDecay (Convert V b p) = fSFromDecay p"
  by (simp add: Convert_def)

text \<open>
  C8. \<^verbatim>\<open>TransportToDS(dS)\<close> adds \<open>dS\<close> to \<^verbatim>\<open>fSFromDecay\<close>, and after
  \<^verbatim>\<open>TransportToDecayVertex\<close>, which transports the state by \<open>- fSFromDecay\<close>, the
  state's \<^verbatim>\<open>fSFromDecay\<close> is \<open>0\<close> (whatever the derived class's transport and field are,
  and whether or not the covariance is converted back from the production vertex).
\<close>

theorem sFromDecay_after_TransportToDecayVertex:
  "fSFromDecay (TransportToDS V dS p) = fSFromDecay p + dS
   \<and> fSFromDecay (TransportToDecayVertex V p) = 0
   \<and> fAtProductionVertex (TransportToDecayVertex V p) = False"
  by (simp add: TransportToDecayVertex_def Let_def fSFromDecay_TransportToDS fSFromDecay_Convert)

section \<open>Armenteros-Podolanski variables: what the function returns\<close>

lemma sqrt_144: "sqrt 144 = 12"
  using real_sqrt_abs[of 12] by simp

lemma sqrt_25: "sqrt 25 = 5"
  using real_sqrt_abs[of 5] by simp

lemma sqrt_9_25: "sqrt (1 - (4 / 5)\<^sup>2) = 3 / 5"
proof -
  have "1 - (4 / 5)\<^sup>2 = ((3::real) / 5)\<^sup>2" by (simp add: power2_eq_square)
  then show ?thesis using real_sqrt_abs[of "3 / 5"] by simp
qed

text \<open>
  The output mask is the conjunction of the two degeneracy tests \<^verbatim>\<open>abs(sp) < 1e-10\<close> and
  \<^verbatim>\<open>abs(pn) < 1e-10\<close>, and \<^verbatim>\<open>qt & mask\<close>, \<^verbatim>\<open>alpha & mask\<close> keep the computed values on
  the lanes where it holds. So for every pair of daughters with a summed momentum or a
  negative-daughter momentum of at least \<open>10\<^sup>-\<^sup>1\<^sup>0\<close>, both outputs are zero.
\<close>

lemma GetArmenterosPodolanski_regular:
  assumes "1 / 10 ^ 10 \<le> sqrt ((GetPx a + GetPx b)\<^sup>2 + (GetPy a + GetPy b)\<^sup>2 + (GetPz a + GetPz b)\<^sup>2)
        \<or> 1 / 10 ^ 10 \<le> sqrt ((GetPx b)\<^sup>2 + (GetPy b)\<^sup>2 + (GetPz b)\<^sup>2)"
  shows "GetArmenterosPodolanski a b = [0, 0]"
  using assms
  by (auto simp add: GetArmenterosPodolanski_def Let_def mask_and_def power2_eq_square)

text \<open>
  C6. The claim asks for \<open>(qt, alpha)\<close> equal to the direct computation. For the
  daughters with momenta \<open>(-3, 0, 8)\<close> (positive) and \<open>(3, 0, 4)\<close> (negative) the direct
  computation gives \<open>qt = 3\<close> and \<open>alpha = 1/3\<close>, and the function returns \<open>(0, 0)\<close>.
\<close>

theorem GetArmenterosPodolanski_at_v0:
  "GetArmenterosPodolanski v0_positive v0_negative = [0, 0]
   \<and> ArmenterosPodolanski_direct v0_positive v0_negative = (3, 1 / 3)"
  by (simp add: GetArmenterosPodolanski_def Let_def mask_and_def v0_positive_def v0_negative_def
      example_particle_def GetPx_def GetPy_def GetPz_def sqrt_144 sqrt_25 sqrt_9_25
      ArmenterosPodolanski_direct_def momentum_def longitudinal_def)

section \<open>The pivots of the 3x3 inversion\<close>

lemma sqrt_1e8: "sqrt (1 / 100000000) = 1 / 10000"
  by (rule real_sqrt_unique) (simp_all add: power2_eq_square)

lemma clamp_pivot_char: "clamp_pivot x = (if \<bar>x\<bar> < 1 / 10 ^ 8 then 1 / 10 ^ 8 else x)"
  by (simp add: clamp_pivot_def Let_def)


lemma list3_ex: "length xs = 3 \<Longrightarrow> \<exists>a b c. xs = [a, b, c]"
  by (simp add: eval_nat_numeral length_Suc_conv) (elim exE conjE, simp)

lemma shape3_ex:
  assumes "shape3 du"
  shows "\<exists>d0 d1 d2 u00 u01 u02 u10 u11 u12 u20 u21 u22.
    du = ([d0, d1, d2], [[u00, u01, u02], [u10, u11, u12], [u20, u21, u22]])"
proof -
  obtain d u where du: "du = (d, u)" by (cases du)
  from assms du have ld: "length d = 3" and lu: "length u = 3" and rows: "\<forall>r \<in> set u. length r = 3"
    by (simp_all add: shape3_def)
  from list3_ex[OF ld] obtain d0 d1 d2 where d: "d = [d0, d1, d2]" by blast
  from list3_ex[OF lu] obtain r0 r1 r2 where u: "u = [r0, r1, r2]" by blast
  from rows u have "length r0 = 3" "length r1 = 3" "length r2 = 3" by simp_all
  then obtain u00 u01 u02 u10 u11 u12 u20 u21 u22
    where "r0 = [u00, u01, u02]" "r1 = [u10, u11, u12]" "r2 = [u20, u21, u22]"
    using list3_ex by metis
  with du d u show ?thesis by blast
qed

lemma clamp_pivot_abs: "\<bar>clamp_pivot x\<bar> = (if \<bar>x\<bar> < 1 / 10 ^ 8 then 1 / 10 ^ 8 else \<bar>x\<bar>)"
  by (simp add: clamp_pivot_char)

lemma clamp_pivot_sign: "clamp_pivot x / \<bar>clamp_pivot x\<bar> = (if \<bar>x\<bar> < 1 / 10 ^ 8 then 1 else sgn x)"
  by (simp add: clamp_pivot_char sgn_real_def)

lemma step_explicit:
  assumes "i < 3"
  shows "\<exists>v01 v02 v12. InvertCholetsky3_step a i ([d0, d1, d2], [[u00, u01, u02], [u10, u11, u12], [u20, u21, u22]])
    = (let c = clamp_pivot (InvertCholetsky3_pivot a [d0, d1, d2] [[u00, u01, u02], [u10, u11, u12], [u20, u21, u22]] i);
           s = c / \<bar>c\<bar>; r = sqrt \<bar>c\<bar> in
       if i = 0 then ([s, d1, d2], [[r, v01, v02], [u10, u11, u12], [u20, u21, u22]])
       else if i = 1 then ([d0, s, d2], [[u00, u01, u02], [u10, r, v12], [u20, u21, u22]])
       else ([d0, d1, s], [[u00, u01, u02], [u10, u11, u12], [u20, u21, r]]))"
proof -
  from assms consider "i = 0" | "i = 1" | "i = 2" by linarith
  then show ?thesis
    by cases (simp_all add: InvertCholetsky3_step_def InvertCholetsky3_row_def Let_def eval_arrays)
qed

lemma step_shape3:
  assumes "shape3 du" "i < 3"
  shows "shape3 (InvertCholetsky3_step a i du)"
proof -
  from shape3_ex[OF assms(1)] obtain d0 d1 d2 u00 u01 u02 u10 u11 u12 u20 u21 u22
    where du: "du = ([d0, d1, d2], [[u00, u01, u02], [u10, u11, u12], [u20, u21, u22]])" by blast
  from step_explicit[OF assms(2), of a d0 d1 d2 u00 u01 u02 u10 u11 u12 u20 u21 u22]
  show ?thesis unfolding du by (auto simp add: Let_def shape3_def split: if_splits)
qed

lemma decompose_Suc:
  "InvertCholetsky3_decompose a (Suc n) = InvertCholetsky3_step a n (InvertCholetsky3_decompose a n)"
  by (simp add: InvertCholetsky3_decompose_def)

lemma decompose_shape3: "n \<le> 3 \<Longrightarrow> shape3 (InvertCholetsky3_decompose a n)"
proof (induction n)
  case 0
  show ?case by (simp add: InvertCholetsky3_decompose_def shape3_def eval_arrays)
next
  case (Suc n)
  then show ?case by (simp add: decompose_Suc step_shape3)
qed

lemma step_pivot:
  assumes "shape3 du" "i < 3"
  shows "fst (InvertCholetsky3_step a i du) ! i
           = clamp_pivot (InvertCholetsky3_pivot a (fst du) (snd du) i)
             / \<bar>clamp_pivot (InvertCholetsky3_pivot a (fst du) (snd du) i)\<bar>
       \<and> snd (InvertCholetsky3_step a i du) ! i ! i
           = sqrt \<bar>clamp_pivot (InvertCholetsky3_pivot a (fst du) (snd du) i)\<bar>"
proof -
  from shape3_ex[OF assms(1)] obtain d0 d1 d2 u00 u01 u02 u10 u11 u12 u20 u21 u22
    where du: "du = ([d0, d1, d2], [[u00, u01, u02], [u10, u11, u12], [u20, u21, u22]])" by blast
  from assms(2) consider "i = 0" | "i = 1" | "i = 2" by linarith
  then show ?thesis
    using step_explicit[OF assms(2), of a d0 d1 d2 u00 u01 u02 u10 u11 u12 u20 u21 u22]
    unfolding du by cases (auto simp add: Let_def)
qed


lemma decompose_near_singular:
  "InvertCholetsky3_decompose near_singular_matrix 3
     = ([1, 1, 1], [[1 / 10 ^ 4, 0, 0], [0, 1, 0], [0, 0, 1]])"
  by (simp add: near_singular_matrix_def InvertCholetsky3_decompose_def InvertCholetsky3_step_def
      InvertCholetsky3_row_def InvertCholetsky3_pivot_def clamp_pivot_char sqrt_1e8 eval_arrays)

lemma invert_near_singular:
  "InvertCholetsky3 near_singular_matrix = [10 ^ 8, 0, 1, 0, 0, 1]"
  unfolding InvertCholetsky3_def decompose_near_singular
  by (simp add: near_singular_matrix_def eval_arrays)

subsection \<open>The claim\<close>

text \<open>
  C5, as amended. In every pass \<open>i < 3\<close> of the decomposition of \<^verbatim>\<open>InvertCholetsky3\<close>, a
  pivot \<^verbatim>\<open>uud\<close> of magnitude below \<open>10\<^sup>-\<^sup>8\<close> is replaced by \<open>+10\<^sup>-\<^sup>8\<close> before its sign
  \<^verbatim>\<open>d[i]\<close> and its square root \<^verbatim>\<open>u[i][i]\<close> are taken (the floor \<open>10\<^sup>-\<^sup>1\<^sup>2\<close> of the first
  masked assignment is subsumed by the second), so that the pivot used has magnitude at
  least \<open>10\<^sup>-\<^sup>8\<close> and \<^verbatim>\<open>u[i][i]\<close> is at least \<open>10\<^sup>-\<^sup>4\<close>. The sign of the pivot is kept, in
  \<^verbatim>\<open>d[i]\<close>, only for a pivot of magnitude at least \<open>10\<^sup>-\<^sup>8\<close>; a replaced pivot is positive
  whatever the sign of the original.
\<close>

theorem InvertCholetsky3_pivot_clamp:
  assumes "i < 3"
  shows "(case InvertCholetsky3_decompose a i of (d, u) \<Rightarrow>
           case InvertCholetsky3_decompose a (Suc i) of (d', u') \<Rightarrow>
             let uud = InvertCholetsky3_pivot a d u i in
               \<bar>clamp_pivot uud\<bar> = (if \<bar>uud\<bar> < 1 / 10 ^ 8 then 1 / 10 ^ 8 else \<bar>uud\<bar>)
             \<and> clamp_pivot uud = (if \<bar>uud\<bar> < 1 / 10 ^ 8 then 1 / 10 ^ 8 else uud)
             \<and> d' ! i = (if \<bar>uud\<bar> < 1 / 10 ^ 8 then 1 else sgn uud)
             \<and> u' ! i ! i = sqrt \<bar>clamp_pivot uud\<bar>
             \<and> 1 / 10 ^ 4 \<le> u' ! i ! i)"
proof -
  obtain d u where du: "InvertCholetsky3_decompose a i = (d, u)"
    by (cases "InvertCholetsky3_decompose a i")
  obtain d' u' where st: "InvertCholetsky3_step a i (d, u) = (d', u')"
    by (cases "InvertCholetsky3_step a i (d, u)")
  have sh: "shape3 (d, u)" using decompose_shape3[of i a] assms du by simp
  define uud where "uud = InvertCholetsky3_pivot a d u i"
  from step_pivot[OF sh assms, of a]
  have d': "d' ! i = clamp_pivot uud / \<bar>clamp_pivot uud\<bar>"
    and u': "u' ! i ! i = sqrt \<bar>clamp_pivot uud\<bar>"
    by (simp_all add: st uud_def)
  have A: "\<bar>clamp_pivot uud\<bar> = (if \<bar>uud\<bar> < 1 / 10 ^ 8 then 1 / 10 ^ 8 else \<bar>uud\<bar>)"
    by (rule clamp_pivot_abs)
  have B: "clamp_pivot uud = (if \<bar>uud\<bar> < 1 / 10 ^ 8 then 1 / 10 ^ 8 else uud)"
    by (rule clamp_pivot_char)
  have C: "d' ! i = (if \<bar>uud\<bar> < 1 / 10 ^ 8 then 1 else sgn uud)"
    unfolding d' by (rule clamp_pivot_sign)
  have "1 / 10 ^ 8 \<le> \<bar>clamp_pivot uud\<bar>" unfolding A by simp
  then have "sqrt (1 / 10 ^ 8) \<le> sqrt \<bar>clamp_pivot uud\<bar>"
    by (simp only: real_sqrt_le_iff)
  then have E: "1 / 10 ^ 4 \<le> u' ! i ! i" unfolding u' using sqrt_1e8 by simp
  have "\<bar>clamp_pivot uud\<bar> = (if \<bar>uud\<bar> < 1 / 10 ^ 8 then 1 / 10 ^ 8 else \<bar>uud\<bar>)
      \<and> clamp_pivot uud = (if \<bar>uud\<bar> < 1 / 10 ^ 8 then 1 / 10 ^ 8 else uud)
      \<and> d' ! i = (if \<bar>uud\<bar> < 1 / 10 ^ 8 then 1 else sgn uud)
      \<and> u' ! i ! i = sqrt \<bar>clamp_pivot uud\<bar>
      \<and> 1 / 10 ^ 4 \<le> u' ! i ! i"
    using A B C u' E by blast
  note R = this[unfolded uud_def]
  show ?thesis
    unfolding decompose_Suc du st prod.case Let_def by (rule R)
qed

theorem InvertCholetsky3_pivot_clamp_witness:
  "(0::nat) < 3
   \<and> InvertCholetsky3_pivot near_singular_matrix (replicate 3 0) (replicate 3 (replicate 3 0)) 0
       = - (1 / 10 ^ 9)
   \<and> fst (InvertCholetsky3_decompose near_singular_matrix (Suc 0)) ! 0 = 1
   \<and> 1 / 10 ^ 4 \<le> snd (InvertCholetsky3_decompose near_singular_matrix (Suc 0)) ! 0 ! 0"
proof -
  have i: "(0::nat) < 3" by simp
  have d0: "InvertCholetsky3_decompose near_singular_matrix 0
      = (replicate 3 0, replicate 3 (replicate 3 0))"
    by (simp add: InvertCholetsky3_decompose_def)
  have p: "InvertCholetsky3_pivot near_singular_matrix (replicate 3 0) (replicate 3 (replicate 3 0)) 0
      = - (1 / 10 ^ 9)"
    by (simp add: InvertCholetsky3_pivot_def near_singular_matrix_def)
  obtain d' u' where s: "InvertCholetsky3_decompose near_singular_matrix (Suc 0) = (d', u')"
    by (cases "InvertCholetsky3_decompose near_singular_matrix (Suc 0)")
  from InvertCholetsky3_pivot_clamp [OF i, of near_singular_matrix]
  have C: "d' ! 0 = (if \<bar>- (1 / 10 ^ 9) :: real\<bar> < 1 / 10 ^ 8 then 1 else sgn (- (1 / 10 ^ 9)))"
    and E: "1 / 10 ^ 4 \<le> u' ! 0 ! 0"
    unfolding d0 s prod.case Let_def p by blast+
  from C have "d' ! 0 = 1" by simp
  with i p s E show ?thesis by simp
qed

text \<open>
  The claim as stated (the replacement keeps the sign of the original pivot) fails for
  the matrix \<open>diag (- 10\<^sup>-\<^sup>9, 1, 1)\<close>: its first pivot is \<open>- 10\<^sup>-\<^sup>9\<close>, the value used in its
  place is \<open>+10\<^sup>-\<^sup>8\<close>, all three signs \<^verbatim>\<open>d[i]\<close> are \<open>+1\<close>, and the function returns
  \<open>diag (10\<^sup>8, 1, 1)\<close>, the inverse of a positive definite matrix.
\<close>

theorem InvertCholetsky3_sign_counterexample:
  "InvertCholetsky3_pivot near_singular_matrix (replicate 3 0) (replicate 3 (replicate 3 0)) 0 < 0
   \<and> 0 < clamp_pivot
        (InvertCholetsky3_pivot near_singular_matrix (replicate 3 0) (replicate 3 (replicate 3 0)) 0)
   \<and> fst (InvertCholetsky3_decompose near_singular_matrix 3) = [1, 1, 1]
   \<and> InvertCholetsky3 near_singular_matrix = [10 ^ 8, 0, 1, 0, 0, 1]"
  unfolding decompose_near_singular invert_near_singular
  by (simp add: InvertCholetsky3_pivot_def near_singular_matrix_def clamp_pivot_char)

section \<open>Mass constraints: degrees of freedom and chi-square\<close>

lemma SetMassConstraint_zeta_hypo [simp]:
  "SetMassConstraint_zeta Mass (p\<lparr>fMassHypo := a, SumDaughterMass := b\<rparr>) = SetMassConstraint_zeta Mass p"
  by (simp add: SetMassConstraint_zeta_def)

lemma SetMassConstraint_w2_hypo [simp]:
  "SetMassConstraint_w2 Mass SigmaMass (p\<lparr>fMassHypo := a, SumDaughterMass := b\<rparr>)
     = SetMassConstraint_w2 Mass SigmaMass p"
  by (simp add: SetMassConstraint_w2_def SetMassConstraint_mCHt_def SetMassConstraint_mH_def Cij_def)

text \<open>
  C4, as amended. The linear (soft or hard) constraint \<^verbatim>\<open>SetMassConstraint(Mass, SigmaMass)\<close>
  increments \<^verbatim>\<open>fNDF\<close> by exactly 1 and adds to \<^verbatim>\<open>fChi2\<close> the term \<open>zeta\<^sup>2 * w2\<close> of the
  scalar mass residual \<open>zeta = Mass\<^sup>2 - (E\<^sup>2 - p\<^sup>2)\<close>. The nonlinear constraint
  \<^verbatim>\<open>SetNonlinearMassConstraint(mass)\<close> changes the mean, the covariance and the mass
  bookkeeping only: it leaves \<^verbatim>\<open>fNDF\<close> and \<^verbatim>\<open>fChi2\<close> as they were.
\<close>

theorem mass_constraint_ndf_chi2:
  "fNDF (SetMassConstraint Mass SigmaMass p) = fNDF p + 1
   \<and> fChi2 (SetMassConstraint Mass SigmaMass p)
       = fChi2 p + SetMassConstraint_zeta Mass p * SetMassConstraint_zeta Mass p
                   * SetMassConstraint_w2 Mass SigmaMass p
   \<and> SetMassConstraint_zeta Mass p
       = Mass\<^sup>2 - ((fP p ! 6)\<^sup>2 - ((fP p ! 3)\<^sup>2 + (fP p ! 4)\<^sup>2 + (fP p ! 5)\<^sup>2))
   \<and> fNDF (SetNonlinearMassConstraint mass p) = fNDF p
   \<and> fChi2 (SetNonlinearMassConstraint mass p) = fChi2 p"
  by (simp add: SetMassConstraint_def SetNonlinearMassConstraint_def Let_def
      SetMassConstraint_zeta_def power2_eq_square split: prod.split)

text \<open>
  The claim as stated (every mass-constraint application increments \<^verbatim>\<open>fNDF\<close> by 1, the
  nonlinear one included) fails for the nonlinear constraint, here with mass \<open>0\<close> on the
  massless example state.
\<close>

theorem nonlinear_mass_constraint_counterexample:
  "fNDF (SetNonlinearMassConstraint 0 massless_particle) \<noteq> fNDF massless_particle + 1"
  by (simp add: SetNonlinearMassConstraint_def split: prod.split)

section \<open>Subtracting a particle from a vertex: the guard\<close>

subsection \<open>Bit patterns of the numbers of the example\<close>

lemma float_exponent_normal:
  assumes "1 \<le> e" "e < 255" "2 ^ e \<le> \<bar>x\<bar> * 2 ^ 127" "\<bar>x\<bar> * 2 ^ 126 < 2 ^ e"
  shows "float_exponent x = e"
proof -
  have "find (\<lambda>e. \<bar>x\<bar> * 2 ^ 126 < 2 ^ e) [0..<255] = Some e"
  proof (subst find_Some_iff, rule exI[of _ e], intro conjI allI impI)
    show "e < length [0..<255]" using assms by simp
    show "\<bar>x\<bar> * 2 ^ 126 < 2 ^ ([0..<255] ! e)" using assms by simp
    show "e = [0..<255] ! e" using assms by simp
    fix j assume j: "j < e"
    then have "j \<le> e - 1" by simp
    then have "(2::real) ^ j \<le> 2 ^ (e - 1)" by (intro power_increasing) simp_all
    moreover have "(2::real) ^ (e - 1) * 2 = 2 ^ e" using assms(1) by (cases e) simp_all
    moreover have "\<bar>x\<bar> * 2 ^ 127 = \<bar>x\<bar> * 2 ^ 126 * 2" by simp
    ultimately have "2 ^ j \<le> \<bar>x\<bar> * 2 ^ 126" using assms(3) by linarith
    then show "\<not> \<bar>x\<bar> * 2 ^ 126 < 2 ^ ([0..<255] ! j)" using j assms(2) by simp
  qed
  then show ?thesis by (simp add: float_exponent_def)
qed

lemma float_exponent_zero: "float_exponent 0 = 0"
  by (simp add: float_exponent_def upt_rec[of 0 255])

lemma float_exponent_binade_126: "float_exponent (1 / 2) = 126" "float_exponent (- (1 / 2)) = 126"
  by (rule float_exponent_normal; simp)+

lemma float_exponent_binade_127: "float_exponent 1 = 127" "float_exponent (3 / 2) = 127"
  by (rule float_exponent_normal; simp)+

lemma float_exponent_binade_128: "float_exponent 3 = 128"
  by (rule float_exponent_normal) simp_all

lemma float_exponent_binade_130: "float_exponent (- (31 / 2)) = 130"
  by (rule float_exponent_normal) simp_all

text \<open>
  The patterns \<^verbatim>\<open>0x3F800000\<close> of 1, \<^verbatim>\<open>0x3FC00000\<close> of 3/2, \<^verbatim>\<open>0x40400000\<close> of 3,
  \<^verbatim>\<open>0x3F000000\<close> of 1/2, \<^verbatim>\<open>0xBF000000\<close> of -1/2 and \<^verbatim>\<open>0xC1780000\<close> of -31/2.
\<close>

lemma float_bits_example:
  "float_bits 0 = 0"
  "float_bits 1 = 1065353216"
  "float_bits (3 / 2) = 1069547520"
  "float_bits 3 = 1077936128"
  "float_bits (1 / 2) = 1056964608"
  "float_bits (- (1 / 2)) = 3204448256"
  "float_bits (- (31 / 2)) = 3245867008"
  by (simp_all add: float_bits_def round_even_def Let_def float_exponent_zero
      float_exponent_binade_126 float_exponent_binade_127 float_exponent_binade_128
      float_exponent_binade_130)

text \<open>
  The conjunction with the pattern of 1 keeps the low seven bits of the exponent and
  clears the sign and the fraction.
\<close>

lemma float_and_one_example:
  "float_and 1 0 = 0"
  "float_and 1 1 = 1"
  "float_and 1 (3 / 2) = 1"
  "float_and 1 3 = 0"
  "float_and 1 (1 / 2) = 1 / 2"
  "float_and 1 (- (1 / 2)) = 1 / 2"
  "float_and 1 (- (31 / 2)) = 1 / 2 ^ 125"
  by (simp_all add: float_and_def float_bits_example float_value_def Let_def)

subsection \<open>The intermediate values of the example\<close>

lemma SubtractFromVertex_m_example:
  "SubtractFromVertex_m line_virtuals [] resting_particle unit_vertex
   = ([5, 2, 3, 0, 0, 0, 1, 0], [5, 2, 3, 0, 0, 2] @ replicate 30 0)"
  by (simp add: SubtractFromVertex_m_def unit_vertex_def resting_particle_def example_particle_def
      GetMeasurement_def line_virtuals_def TransportLine_def TransportLine_apply_def GetSCorrection_def
      Let_def eval_arrays kCLight_def)

lemma sqrt_4: "sqrt 4 = 2"
  using real_sqrt_abs[of 2] by simp

lemma decompose_example:
  "InvertCholetsky3_decompose [4, 2, 2, 0, 0, 1] 3 = ([1, 1, 1], [[2, 1, 0], [0, 1, 0], [0, 0, 1]])"
  by (simp add: InvertCholetsky3_decompose_def InvertCholetsky3_step_def
      InvertCholetsky3_row_def InvertCholetsky3_pivot_def clamp_pivot_char eval_arrays Let_def sqrt_4)

lemma invert_example: "InvertCholetsky3 [4, 2, 2, 0, 0, 1] = [1 / 2, - (1 / 2), 1, 0, 0, 1]"
  unfolding InvertCholetsky3_def decompose_example by (simp add: eval_arrays)

lemma SubtractFromVertex_mS_example:
  "SubtractFromVertex_mS line_virtuals [] resting_particle unit_vertex = [1 / 2, - (1 / 2), 1, 0, 0, 1]"
  unfolding SubtractFromVertex_mS_def SubtractFromVertex_m_example
  by (simp add: unit_vertex_def example_particle_def eval_arrays invert_example)

lemma SubtractFromVertex_zeta_example:
  "SubtractFromVertex_zeta line_virtuals [] resting_particle unit_vertex = [5, 2, 3]"
  unfolding SubtractFromVertex_zeta_def SubtractFromVertex_m_example
  by (simp add: unit_vertex_def example_particle_def)

lemma SubtractFromVertex_mCHt_example:
  "SubtractFromVertex_mCHt unit_vertex = ([1, 0, 0], [0, 1, 0], [0, 0, 1])"
  by (simp add: SubtractFromVertex_mCHt_def unit_vertex_def example_particle_def)

lemma SubtractFromVertex_K_example:
  "SubtractFromVertex_K line_virtuals [] resting_particle unit_vertex
   = ([1 / 2, - (1 / 2), 0], [- (1 / 2), 1, 0], [0, 0, 1])"
  unfolding SubtractFromVertex_K_def SubtractFromVertex_mS_example SubtractFromVertex_mCHt_example
  by (simp add: gain_rows_def eval_arrays)

lemma SubtractFromVertex_dChi2_example:
  "SubtractFromVertex_dChi2 line_virtuals [] resting_particle unit_vertex = - (31 / 2)"
  unfolding SubtractFromVertex_dChi2_def SubtractFromVertex_mS_example SubtractFromVertex_zeta_example
  by simp

lemma SubtractFromVertex_example:
  "SubtractFromVertex line_virtuals [] resting_particle unit_vertex
   = unit_vertex\<lparr>fP := [- 1, - (1 / 2), 0, 0, 0, 0, 0, 0],
       fC := [3 / 2, 1 / 2, 2, 0, 0, 2] @ replicate 30 0, fNDF := - 2, fChi2 := 1 / 2 ^ 125\<rparr>"
  unfolding SubtractFromVertex_def SubtractFromVertex_body_def SubtractFromVertex_K_example
    SubtractFromVertex_mCHt_example SubtractFromVertex_zeta_example SubtractFromVertex_dChi2_example
    prod.case Let_def
  by (simp add: float_v_of_bool_def float_and_one_example unit_vertex_def example_particle_def
      eval_arrays)

lemma Kalman_downdate_example:
  "Kalman_downdate line_virtuals [] resting_particle unit_vertex
   = unit_vertex\<lparr>fP := [- (3 / 2), 1 / 2, - 3, 0, 0, 0, 0, 0],
       fC := [3 / 2, - (1 / 2), 2, 0, 0, 2] @ replicate 30 0, fNDF := - 2, fChi2 := - (31 / 2)\<rparr>"
  unfolding Kalman_downdate_def SubtractFromVertex_K_example
    SubtractFromVertex_mCHt_example SubtractFromVertex_zeta_example SubtractFromVertex_dChi2_example
    prod.case Let_def
  by (simp add: unit_vertex_def example_particle_def eval_arrays)

text \<open>
  The part of the claim that holds for every input: \<^verbatim>\<open>fNDF\<close> is decremented by exactly 2,
  whatever the guard does to the other members.
\<close>

lemma fNDF_SubtractFromVertex:
  "fNDF (SubtractFromVertex VI mCm0 p Vtx) = fNDF Vtx - 2"
  by (simp add: SubtractFromVertex_def SubtractFromVertex_body_def Let_def split: prod.splits)

text \<open>
  C9. The claim asks for the Kalman downdate to be applied in full for every particle and
  vertex. For the particle at rest at \<open>(5, 2, 3)\<close> and the unit vertex at the origin the
  downdate moves the vertex to \<open>(-3/2, 1/2, -3)\<close>, gives the covariance entry \<open>C\<^sub>1\<^sub>0 = -1/2\<close>
  and the chi-square \<open>-31/2\<close>. The function returns the position \<open>(-1, -1/2, 0)\<close>, the
  covariance entry \<open>C\<^sub>1\<^sub>0 = 1/2\<close> and the chi-square \<open>2\<^sup>-\<^sup>1\<^sup>2\<^sup>5\<close>: its guard is the number 1, and
  the conjunction of a value with the bit pattern of 1 keeps only part of the value's
  exponent. Only \<^verbatim>\<open>fNDF\<close>, which is outside the guard, is the same (\<open>-2\<close>).
\<close>

theorem SubtractFromVertex_guard_at_example:
  "fP (SubtractFromVertex line_virtuals [] resting_particle unit_vertex) = [- 1, - (1 / 2), 0, 0, 0, 0, 0, 0]
   \<and> take 6 (fC (SubtractFromVertex line_virtuals [] resting_particle unit_vertex)) = [3 / 2, 1 / 2, 2, 0, 0, 2]
   \<and> fChi2 (SubtractFromVertex line_virtuals [] resting_particle unit_vertex) = 1 / 2 ^ 125
   \<and> fNDF (SubtractFromVertex line_virtuals [] resting_particle unit_vertex) = - 2
   \<and> fP (Kalman_downdate line_virtuals [] resting_particle unit_vertex) = [- (3 / 2), 1 / 2, - 3, 0, 0, 0, 0, 0]
   \<and> take 6 (fC (Kalman_downdate line_virtuals [] resting_particle unit_vertex)) = [3 / 2, - (1 / 2), 2, 0, 0, 2]
   \<and> fChi2 (Kalman_downdate line_virtuals [] resting_particle unit_vertex) = - (31 / 2)
   \<and> fNDF (Kalman_downdate line_virtuals [] resting_particle unit_vertex) = - 2"
  unfolding SubtractFromVertex_example Kalman_downdate_example by simp
section \<open>Degrees of freedom of the daughter additions\<close>

lemma for_loop_1: "for_loop 1 body 0 s = body 0 s"
  by (simp add: for_loop.simps[of 1 body 0] for_loop.simps[of 1 body 1])

lemma for_loop_3: "for_loop 3 body 0 s = body 2 (body 1 (body 0 s))"
  by (simp add: for_loop.simps[of 3 body 0] for_loop.simps[of 3 body 1] for_loop.simps[of 3 body 2]
      for_loop.simps[of 3 body 3])

lemma fNDF_TransportToDS [simp]: "fNDF (TransportToDS VI dS p) = fNDF p"
  by (simp add: TransportToDS_def split: prod.split)

lemma fConstructMethod_TransportToDS [simp]: "fConstructMethod (TransportToDS VI dS p) = fConstructMethod p"
  by (simp add: TransportToDS_def split: prod.split)

lemma AddDaughter_linearize_facts:
  "(fst (AddDaughter_linearize VI Daughter b p) = 1 \<or> fst (AddDaughter_linearize VI Daughter b p) = 3)
   \<and> fNDF (snd (AddDaughter_linearize VI Daughter b p)) = fNDF p
   \<and> fConstructMethod (snd (AddDaughter_linearize VI Daughter b p)) = fConstructMethod p"
  by (simp add: AddDaughter_linearize_def Let_def split: prod.split)

lemma AddDaughter_linearize_cases:
  obtains p' where "AddDaughter_linearize VI Daughter b p = (1, p')" "fNDF p' = fNDF p"
      "fConstructMethod p' = fConstructMethod p"
  | p' where "AddDaughter_linearize VI Daughter b p = (3, p')" "fNDF p' = fNDF p"
      "fConstructMethod p' = fConstructMethod p"
  using AddDaughter_linearize_facts[of VI Daughter b p]
  by (cases "AddDaughter_linearize VI Daughter b p") auto

lemma fNDF_bookkeeping:
  "fNDF (AddDaughter_bookkeeping maxIter iter Daughter mS zeta p)
     = (if iter = maxIter - 1 then fNDF p + 2 else fNDF p)"
  by (simp add: AddDaughter_bookkeeping_def)

lemma fConstructMethod_bookkeeping [simp]:
  "fConstructMethod (AddDaughter_bookkeeping maxIter iter Daughter mS zeta p) = fConstructMethod p"
  by (simp add: AddDaughter_bookkeeping_def)

lemma fNDF_EnergyFit_pass:
  "fNDF (AddDaughterWithEnergyFit_pass VI mV0 Daughter b maxIter iter p)
     = (if iter = maxIter - 1 then fNDF p + 2 else fNDF p)"
  by (auto simp add: AddDaughterWithEnergyFit_pass_def Let_def fNDF_bookkeeping split: prod.splits)

lemma fNDF_EnergyCalc_pass:
  "fNDF (AddDaughterWithEnergyCalc_pass VI mV0 Daughter b maxIter iter p)
     = (if iter = maxIter - 1 then fNDF p + 2 else fNDF p)"
  by (auto simp add: AddDaughterWithEnergyCalc_pass_def Let_def fNDF_bookkeeping split: prod.splits)

lemma fNDF_EnergyFitMC_pass:
  "fNDF (AddDaughterWithEnergyFitMC_pass VI mV0 Daughter b maxIter iter p)
     = (if iter = maxIter - 1 then fNDF p + 2 else fNDF p)"
  by (auto simp add: AddDaughterWithEnergyFitMC_pass_def Let_def fNDF_bookkeeping split: prod.splits)

lemma fCM_EnergyFit_pass [simp]:
  "fConstructMethod (AddDaughterWithEnergyFit_pass VI mV0 Daughter b maxIter iter p) = fConstructMethod p"
  by (auto simp add: AddDaughterWithEnergyFit_pass_def Let_def split: prod.splits)

lemma fCM_EnergyCalc_pass [simp]:
  "fConstructMethod (AddDaughterWithEnergyCalc_pass VI mV0 Daughter b maxIter iter p) = fConstructMethod p"
  by (auto simp add: AddDaughterWithEnergyCalc_pass_def Let_def split: prod.splits)

lemma fCM_EnergyFitMC_pass [simp]:
  "fConstructMethod (AddDaughterWithEnergyFitMC_pass VI mV0 Daughter b maxIter iter p) = fConstructMethod p"
  by (auto simp add: AddDaughterWithEnergyFitMC_pass_def Let_def split: prod.splits)

lemma fNDF_AddDaughterWithEnergyFit:
  "fNDF (AddDaughterWithEnergyFit VI mV0 Daughter b p) = fNDF p + 2"
  by (rule AddDaughter_linearize_cases[of VI Daughter b p])
     (simp_all add: AddDaughterWithEnergyFit_def for_loop_1 for_loop_3 fNDF_EnergyFit_pass)

lemma fNDF_AddDaughterWithEnergyCalc:
  "fNDF (AddDaughterWithEnergyCalc VI mV0 Daughter b p) = fNDF p + 2"
  by (rule AddDaughter_linearize_cases[of VI Daughter b p])
     (simp_all add: AddDaughterWithEnergyCalc_def for_loop_1 for_loop_3 fNDF_EnergyCalc_pass)

lemma fNDF_AddDaughterWithEnergyFitMC:
  "fNDF (AddDaughterWithEnergyFitMC VI mV0 Daughter b p) = fNDF p + 2"
  by (rule AddDaughter_linearize_cases[of VI Daughter b p])
     (simp_all add: AddDaughterWithEnergyFitMC_def for_loop_1 for_loop_3 fNDF_EnergyFitMC_pass)

lemma fCM_AddDaughterWithEnergyFit [simp]:
  "fConstructMethod (AddDaughterWithEnergyFit VI mV0 Daughter b p) = fConstructMethod p"
  by (rule AddDaughter_linearize_cases[of VI Daughter b p])
     (simp_all add: AddDaughterWithEnergyFit_def for_loop_1 for_loop_3)

lemma fCM_AddDaughterWithEnergyCalc [simp]:
  "fConstructMethod (AddDaughterWithEnergyCalc VI mV0 Daughter b p) = fConstructMethod p"
  by (rule AddDaughter_linearize_cases[of VI Daughter b p])
     (simp_all add: AddDaughterWithEnergyCalc_def for_loop_1 for_loop_3)

lemma fCM_AddDaughterWithEnergyFitMC [simp]:
  "fConstructMethod (AddDaughterWithEnergyFitMC VI mV0 Daughter b p) = fConstructMethod p"
  by (rule AddDaughter_linearize_cases[of VI Daughter b p])
     (simp_all add: AddDaughterWithEnergyFitMC_def for_loop_1 for_loop_3)

lemma fNDF_AddDaughter:
  "fNDF (AddDaughter VI mV0 Daughter b p)
     = (if fNDF p < - 1 then - 1
        else if fConstructMethod p \<in> {0, 1, 2} then fNDF p + 2 else fNDF p)"
  by (auto simp add: AddDaughter_def AddDaughterId_def Let_def fNDF_AddDaughterWithEnergyFit
      fNDF_AddDaughterWithEnergyCalc fNDF_AddDaughterWithEnergyFitMC split: prod.splits)

lemma fCM_AddDaughter [simp]:
  "fConstructMethod (AddDaughter VI mV0 Daughter b p) = fConstructMethod p"
  by (auto simp add: AddDaughter_def AddDaughterId_def Let_def split: prod.splits)

lemma fNDF_AddDaughters_running:
  assumes "fConstructMethod p \<in> {0, 1, 2}" and "- 1 \<le> fNDF p"
  shows "fNDF (AddDaughters VI b Ds p) = fNDF p + 2 * int (length Ds)"
  using assms
proof (induction Ds arbitrary: p)
  case Nil
  show ?case by (simp add: AddDaughters_def)
next
  case (Cons D Ds)
  obtain mV0 Daughter where D: "D = (mV0, Daughter)" by (cases D)
  let ?p = "AddDaughter VI mV0 Daughter b p"
  have step: "fNDF ?p = fNDF p + 2" using Cons.prems by (simp add: fNDF_AddDaughter)
  have "fNDF (AddDaughters VI b Ds ?p) = fNDF ?p + 2 * int (length Ds)"
    using Cons.prems step by (intro Cons.IH) simp_all
  then show ?case using step by (simp add: AddDaughters_def D)
qed

lemma fNDF_AddDaughters_general:
  assumes "fConstructMethod p \<in> {0, 1, 2}"
  shows "fNDF (AddDaughters VI b Ds p)
     = (if Ds = [] then fNDF p
        else if fNDF p < - 1 then 2 * int (length Ds) - 3
        else fNDF p + 2 * int (length Ds))"
proof (cases Ds)
  case Nil
  then show ?thesis by (simp add: AddDaughters_def)
next
  case (Cons D Ds')
  obtain mV1 D1 where D: "D = (mV1, D1)" by (cases D)
  let ?p = "AddDaughter VI mV1 D1 b p"
  show ?thesis
  proof (cases "fNDF p < - 1")
    case True
    then have first: "fNDF ?p = - 1" by (simp add: fNDF_AddDaughter)
    have "fNDF (AddDaughters VI b Ds' ?p) = fNDF ?p + 2 * int (length Ds')"
      using assms first by (intro fNDF_AddDaughters_running) simp_all
    then show ?thesis using first True by (simp add: AddDaughters_def Cons D)
  next
    case False
    then show ?thesis
      using fNDF_AddDaughters_running[of p VI b Ds] assms by (simp add: Cons)
  qed
qed

lemma fCM_AddDaughters [simp]:
  "fConstructMethod (AddDaughters VI b Ds p) = fConstructMethod p"
  unfolding AddDaughters_def
  by (induction Ds arbitrary: p) (simp_all split: prod.split)

lemma Construct_start_facts:
  "(fst (Construct_start VI ds IsC b p) = 1 \<or> fst (Construct_start VI ds IsC b p) = 3)
   \<and> fConstructMethod (snd (Construct_start VI ds IsC b p)) = fConstructMethod p"
  by (simp add: Construct_start_def Let_def split: prod.split)

lemma fNDF_Construct_pass:
  assumes "fConstructMethod p \<in> {0, 1, 2}"
  shows "fNDF (Construct_pass VI Ds IsC b cC maxIter iter p)
     = (if IsC then 2 * int (length Ds)
        else if Ds = [] then - 3 else 2 * int (length Ds) - 3)"
  using assms
  by (simp add: Construct_pass_def Let_def CleanDaughtersId_def SetNDaughters_def
      fNDF_AddDaughters_general)

lemma fCM_Construct_pass [simp]:
  "fConstructMethod (Construct_pass VI Ds IsC b cC maxIter iter p) = fConstructMethod p"
  by (simp add: Construct_pass_def Let_def CleanDaughtersId_def SetNDaughters_def)

lemma fNDF_SetMassConstraint: "fNDF (SetMassConstraint Mass SigmaMass p) = fNDF p + 1"
  by (simp add: SetMassConstraint_def Let_def split: prod.split)

lemma fNDF_Convert [simp]: "fNDF (Convert VI b p) = fNDF p"
  by (simp add: Convert_def)

lemma fNDF_TransportToDecayVertex [simp]: "fNDF (TransportToDecayVertex VI p) = fNDF p"
  by (simp add: TransportToDecayVertex_def Let_def)

lemma fNDF_SetProductionVertex: "fNDF (SetProductionVertex VI Vtx p) = fNDF p + 2"
  by (simp add: SetProductionVertex_def Let_def)

lemma fNDF_Construct:
  assumes "fConstructMethod p \<in> {0, 1, 2}"
  shows "fNDF (Construct VI Ds Parent Mass IsC b p)
     = (if IsC then 2 * int (length Ds)
        else if Ds = [] then - 3 else 2 * int (length Ds) - 3)
       + (if Mass \<ge> 0 then 1 else 0) + (case Parent of None \<Rightarrow> 0 | Some Vtx \<Rightarrow> 2)"
proof -
  obtain maxIter p1 where st: "Construct_start VI (map snd Ds) IsC b p = (maxIter, p1)"
    by (cases "Construct_start VI (map snd Ds) IsC b p")
  from Construct_start_facts[of VI "map snd Ds" IsC b p] st
  have mi: "maxIter = 1 \<or> maxIter = 3" and cm: "fConstructMethod p1 \<in> {0, 1, 2}"
    using assms by auto
  define body where "body = Construct_pass VI Ds IsC b (Construct_constraintC IsC p1) maxIter"
  define n where "n = (if IsC then 2 * int (length Ds)
        else if Ds = [] then - 3 else 2 * int (length Ds) - 3)"
  have pass: "fNDF (body iter q) = n" if "fConstructMethod q \<in> {0, 1, 2}" for iter q
    unfolding body_def n_def using that by (rule fNDF_Construct_pass)
  have cmb: "fConstructMethod (body iter q) = fConstructMethod q" for iter q
    unfolding body_def by simp
  define p2 where "p2 = for_loop maxIter body 0 p1"
  have loop: "fNDF p2 = n"
  proof -
    from mi show ?thesis
    proof
      assume "maxIter = 1"
      then show ?thesis unfolding p2_def using pass[OF cm] by (simp add: for_loop_1)
    next
      assume "maxIter = 3"
      then show ?thesis unfolding p2_def using pass cm cmb by (simp add: for_loop_3)
    qed
  qed
  define p3 where "p3 = p2\<lparr>fIsLinearized := fIsLinearized p\<rparr>"
  define p4 where "p4 = (if Mass \<ge> 0 then SetMassConstraint Mass 0 p3 else p3)"
  have n3: "fNDF p3 = n" using loop by (simp add: p3_def)
  have n4: "fNDF p4 = n + (if Mass \<ge> 0 then 1 else 0)"
    using n3 by (simp add: p4_def fNDF_SetMassConstraint)
  have C: "Construct VI Ds Parent Mass IsC b p
      = (case Parent of None \<Rightarrow> p4 | Some Vtx \<Rightarrow> SetProductionVertex VI Vtx p4)"
    unfolding Construct_def Let_def st prod.case p4_def p3_def p2_def body_def ..
  show ?thesis
    unfolding C n_def[symmetric] using n4
    by (cases Parent) (simp_all add: fNDF_SetProductionVertex)
qed

text \<open>
  C3. Starting from a fresh state (\<^verbatim>\<open>fNDF = -3\<close>), after adding \<open>k \<ge> 1\<close> daughters through
  \<^verbatim>\<open>AddDaughter\<close> the state's \<^verbatim>\<open>fNDF\<close> is \<open>2 k - 3\<close>: the first daughter initialises the
  state by copy and sets \<^verbatim>\<open>fNDF\<close> to \<open>- 1\<close>, each later one increments it by exactly 2 (in
  the last pass of its linearisation loop only). Starting from an already constrained
  state (\<^verbatim>\<open>fNDF = 0\<close>), \<^verbatim>\<open>fNDF\<close> is \<open>2 k\<close> after \<open>k\<close> additions. The construction method is
  one of the three policies 0, 1, 2 of the data model. \<^verbatim>\<open>Construct\<close>, which resets the state
  to \<^verbatim>\<open>fNDF = -3\<close> (or \<open>0\<close> when it is constrained) and adds its \<open>k\<close> daughters, ends with
  these values when no mass and no parent is given.
\<close>

theorem AddDaughter_ndf:
  assumes "fConstructMethod p \<in> {0, 1, 2}" and "vDaughters \<noteq> []"
  shows "(fNDF p = - 3 \<longrightarrow>
            fNDF (AddDaughter VI mV0 Daughter b p) = - 1
          \<and> fNDF (AddDaughters VI b vDaughters p) = 2 * int (length vDaughters) - 3)
       \<and> (- 1 \<le> fNDF p \<longrightarrow> fNDF (AddDaughter VI mV0 Daughter b p) = fNDF p + 2)
       \<and> (fNDF p = 0 \<longrightarrow> fNDF (AddDaughters VI b vDaughters p) = 2 * int (length vDaughters))
       \<and> (Mass < 0 \<longrightarrow>
            fNDF (Construct VI vDaughters None Mass IsConstrained b p)
              = (if IsConstrained then 2 * int (length vDaughters)
                 else 2 * int (length vDaughters) - 3))
       \<and> fNDF (AddDaughterWithEnergyFit_pass VI mV0 Daughter b maxIter iter p)
           = (if iter = maxIter - 1 then fNDF p + 2 else fNDF p)
       \<and> fNDF (AddDaughterWithEnergyCalc_pass VI mV0 Daughter b maxIter iter p)
           = (if iter = maxIter - 1 then fNDF p + 2 else fNDF p)
       \<and> fNDF (AddDaughterWithEnergyFitMC_pass VI mV0 Daughter b maxIter iter p)
           = (if iter = maxIter - 1 then fNDF p + 2 else fNDF p)"
proof -
  obtain D Ds where v: "vDaughters = D # Ds" using assms(2) by (cases vDaughters) auto
  obtain mV1 D1 where D: "D = (mV1, D1)" by (cases D)
  let ?p = "AddDaughter VI mV1 D1 b p"
  have fresh: "fNDF (AddDaughters VI b vDaughters p) = 2 * int (length vDaughters) - 3"
    if "fNDF p = - 3"
  proof -
    have first: "fNDF ?p = - 1" using that by (simp add: fNDF_AddDaughter)
    have "fNDF (AddDaughters VI b Ds ?p) = fNDF ?p + 2 * int (length Ds)"
      using assms(1) first by (intro fNDF_AddDaughters_running) simp_all
    then show ?thesis using first by (simp add: AddDaughters_def v D)
  qed
  have constrained: "fNDF (AddDaughters VI b vDaughters p) = 2 * int (length vDaughters)"
    if "fNDF p = 0"
    using fNDF_AddDaughters_running[of p VI b vDaughters] assms(1) that by simp
  have single: "(fNDF p = - 3 \<longrightarrow> fNDF (AddDaughter VI mV0 Daughter b p) = - 1)
      \<and> (- 1 \<le> fNDF p \<longrightarrow> fNDF (AddDaughter VI mV0 Daughter b p) = fNDF p + 2)"
    using assms(1) by (simp add: fNDF_AddDaughter)
  have construct: "fNDF (Construct VI vDaughters None Mass IsConstrained b p)
      = (if IsConstrained then 2 * int (length vDaughters) else 2 * int (length vDaughters) - 3)"
    if "Mass < 0"
    using fNDF_Construct[OF assms(1), of VI vDaughters None Mass IsConstrained b] assms(2) that
    by simp
  show ?thesis
    using fresh constrained single construct
      fNDF_EnergyFit_pass[of VI mV0 Daughter b maxIter iter p]
      fNDF_EnergyCalc_pass[of VI mV0 Daughter b maxIter iter p]
      fNDF_EnergyFitMC_pass[of VI mV0 Daughter b maxIter iter p]
    by blast
qed

theorem AddDaughter_ndf_witness:
  "fNDF new_KFParticleBaseSIMD = - 3
   \<and> fNDF (AddDaughters line_virtuals False
        [(\<lambda>iter. [], example_track), (\<lambda>iter. [], charged_particle), (\<lambda>iter. [], v0_negative)]
        new_KFParticleBaseSIMD) = 3
   \<and> fNDF (Construct line_virtuals
        [(\<lambda>iter. [], example_track), (\<lambda>iter. [], charged_particle), (\<lambda>iter. [], v0_negative)]
        None (- 1) False False new_KFParticleBaseSIMD) = 3"
proof -
  define ds :: "((int \<Rightarrow> real list) \<times> KFParticleBaseSIMD) list"
    where "ds = [(\<lambda>iter. [], example_track), (\<lambda>iter. [], charged_particle), (\<lambda>iter. [], v0_negative)]"
  have cm: "fConstructMethod new_KFParticleBaseSIMD \<in> {0, 1, 2}"
    by (simp add: new_KFParticleBaseSIMD_def Initialize_def)
  have ne: "ds \<noteq> []" by (simp add: ds_def)
  have len: "length ds = 3" by (simp add: ds_def)
  have ndf: "fNDF new_KFParticleBaseSIMD = - 3"
    by (simp add: new_KFParticleBaseSIMD_def Initialize_def)
  have neg: "(- 1 :: real) < 0" by simp
  note T = AddDaughter_ndf [OF cm ne, of line_virtuals "\<lambda>iter. []" example_track False
      "- 1" False 1 0]
  from T ndf have A: "fNDF (AddDaughters line_virtuals False ds new_KFParticleBaseSIMD)
      = 2 * int (length ds) - 3" by blast
  from T neg have B: "fNDF (Construct line_virtuals ds None (- 1) False False new_KFParticleBaseSIMD)
      = (if False then 2 * int (length ds) else 2 * int (length ds) - 3)" by blast
  from A B ndf show ?thesis unfolding len ds_def by simp
qed


end
